theory Spec2Isabelle
  imports Main "HOL-Library.Word"
begin

section \<open>JavaScript values\<close>

text \<open>
  The component of \<^verbatim>\<open>frontend/src/App.js\<close> keeps server data as it came out of
  \<^verbatim>\<open>response.json()\<close>, without checking its shape. A state variable can therefore
  hold any JavaScript value that JSON produces, or \<^verbatim>\<open>undefined\<close>. The component
  computes with no number: it tests one for zero and writes it into a text. A number is
  therefore kept as the text that \<^verbatim>\<open>String\<close> gives for it (\<^verbatim>\<open>1\<close>, \<^verbatim>\<open>-1\<close>, \<^verbatim>\<open>2.5\<close>,
  \<^verbatim>\<open>1e+21\<close>). A string of server data is a list of code points below 256; an object
  lists its own properties, each name once.
\<close>

datatype jsval =
    Undefined
  | JNull
  | JBool bool
  | JNum string
  | JStr string
  | JArr "jsval list"
  | JObj "(string \<times> jsval) list"

text \<open>An exception carries its \<^verbatim>\<open>message\<close>.\<close>

datatype js_error =
    Error string
  | TypeError string
  | SyntaxError string
  | URIError string

fun message :: "js_error \<Rightarrow> string" where
  "message (Error m) = m"
| "message (TypeError m) = m"
| "message (SyntaxError m) = m"
| "message (URIError m) = m"

text \<open>
  \<^verbatim>\<open>if (x)\<close>, \<^verbatim>\<open>!x\<close>, \<^verbatim>\<open>x && y\<close> and \<^verbatim>\<open>x || y\<close> test truthiness. Both zeros are
  written \<^verbatim>\<open>0\<close>.
\<close>

fun truthy :: "jsval \<Rightarrow> bool" where
  "truthy Undefined = False"
| "truthy JNull = False"
| "truthy (JBool b) = b"
| "truthy (JNum text) = (text \<noteq> ''0'' \<and> text \<noteq> ''NaN'')"
| "truthy (JStr s) = (s \<noteq> [])"
| "truthy (JArr xs) = True"
| "truthy (JObj kvs) = True"

text \<open>
  Reading a property \<^verbatim>\<open>x.p\<close>: a TypeError on \<^verbatim>\<open>null\<close> and \<^verbatim>\<open>undefined\<close> (the
  message is V8's), the property of an object, and \<^verbatim>\<open>undefined\<close> where there is none.
  The component reads \<^verbatim>\<open>id\<close>, \<^verbatim>\<open>title\<close>, \<^verbatim>\<open>detail\<close>, \<^verbatim>\<open>response\<close> and
  \<^verbatim>\<open>access_token\<close> only, which no prototype of a primitive or of an array defines.
\<close>

definition cannot_read :: "string \<Rightarrow> string \<Rightarrow> js_error" where
  "cannot_read what p =
     TypeError (''Cannot read properties of '' @ what @ '' (reading '' @ [CHR 0x27] @ p @ [CHR 0x27] @ '')'')"

fun get_prop :: "jsval \<Rightarrow> string \<Rightarrow> js_error + jsval" where
  "get_prop Undefined p = Inl (cannot_read ''undefined'' p)"
| "get_prop JNull p = Inl (cannot_read ''null'' p)"
| "get_prop (JObj kvs) p = Inr (case map_of kvs p of None \<Rightarrow> Undefined | Some v \<Rightarrow> v)"
| "get_prop v p = Inr Undefined"

definition join :: "string \<Rightarrow> string list \<Rightarrow> string" where
  "join sep xs = (case xs of [] \<Rightarrow> [] | y # ys \<Rightarrow> foldl (\<lambda>acc z. acc @ sep @ z) y ys)"

text \<open>The results of a list of conversions, or the first error among them.\<close>

fun first_error :: "(js_error + 'a) list \<Rightarrow> js_error + 'a list" where
  "first_error [] = Inr []"
| "first_error (Inl e # rs) = Inl e"
| "first_error (Inr x # rs) = (case first_error rs of Inl e \<Rightarrow> Inl e | Inr xs \<Rightarrow> Inr (x # xs))"

text \<open>
  \<^verbatim>\<open>String(x)\<close>, which a template literal, \<^verbatim>\<open>new Error(x)\<close> and
  \<^verbatim>\<open>localStorage.setItem\<close> apply. An array joins its elements with commas, \<^verbatim>\<open>null\<close>
  and \<^verbatim>\<open>undefined\<close> elements as the empty string. An object is written by the
  \<^verbatim>\<open>toString\<close> it inherits, unless it has a property of that name: a property that
  came from JSON is not a function, \<^verbatim>\<open>valueOf\<close> returns the object, and the conversion
  throws a TypeError (the message is V8's).
\<close>

fun to_string :: "jsval \<Rightarrow> js_error + string" where
  "to_string Undefined = Inr ''undefined''"
| "to_string JNull = Inr ''null''"
| "to_string (JBool b) = Inr (if b then ''true'' else ''false'')"
| "to_string (JNum text) = Inr text"
| "to_string (JStr s) = Inr s"
| "to_string (JArr xs) =
     (case first_error (map (\<lambda>x. if x = Undefined \<or> x = JNull then Inr [] else to_string x) xs) of
        Inl e \<Rightarrow> Inl e
      | Inr parts \<Rightarrow> Inr (join '','' parts))"
| "to_string (JObj kvs) =
     (case map_of kvs ''toString'' of
        None \<Rightarrow> Inr ''[object Object]''
      | Some v \<Rightarrow> Inl (TypeError ''Cannot convert object to primitive value''))"

text \<open>
  \<^verbatim>\<open>JSON.stringify\<close> drops the properties of an object whose value is \<^verbatim>\<open>undefined\<close>
  and writes \<^verbatim>\<open>null\<close> for such an element of an array. A request body is kept as the
  value that the text sent denotes.
\<close>

fun JSON_stringify :: "jsval \<Rightarrow> jsval" where
  "JSON_stringify (JArr xs) = JArr (map (\<lambda>x. if x = Undefined then JNull else JSON_stringify x) xs)"
| "JSON_stringify (JObj kvs) =
     JObj (map (\<lambda>(k, v). (k, JSON_stringify v)) (filter (\<lambda>(k, v). v \<noteq> Undefined) kvs))"
| "JSON_stringify v = v"

section \<open>Strings\<close>

text \<open>
  The white space of \<^verbatim>\<open>String.prototype.trim\<close> among the code points below 256:
  tab, line feed, vertical tab, form feed, carriage return, space, no-break space.
\<close>

definition js_whitespace :: "char \<Rightarrow> bool" where
  "js_whitespace c = (of_char c \<in> {9, 10, 11, 12, 13, 32, 160 :: nat})"

definition trim :: "string \<Rightarrow> string" where
  "trim s = rev (dropWhile js_whitespace (rev (dropWhile js_whitespace s)))"

text \<open>\<^verbatim>\<open>s.split(',')\<close>: the pieces between the separators, at least one piece.\<close>

fun split :: "char \<Rightarrow> string \<Rightarrow> string list" where
  "split sep [] = [[]]"
| "split sep (c # cs) =
     (if c = sep then [] # split sep cs
      else (case split sep cs of [] \<Rightarrow> [[c]] | p # ps \<Rightarrow> (c # p) # ps))"

section \<open>The search query\<close>

text \<open>
  The search query is the one text that the component hands to a function which can
  fail on it. It is kept as JavaScript has it, a list of UTF-16 code units, so that a
  surrogate without its partner can stand in it.
\<close>

type_synonym code_unit = "16 word"

text \<open>The code units of a text of code points below 256.\<close>

definition utf16 :: "string \<Rightarrow> code_unit list" where
  "utf16 s = map (\<lambda>c. of_nat (of_char c)) s"

text \<open>
  All the white space of \<^verbatim>\<open>trim\<close>: the seven above, U+1680, U+2000 to U+200A,
  U+2028, U+2029, U+202F, U+205F, U+3000 and U+FEFF.
\<close>

definition unit_whitespace :: "code_unit \<Rightarrow> bool" where
  "unit_whitespace u =
     (let n = unat u in
        n \<in> {9, 10, 11, 12, 13, 32, 160, 0x1680, 0x2028, 0x2029, 0x202F, 0x205F, 0x3000, 0xFEFF}
        \<or> (0x2000 \<le> n \<and> n \<le> 0x200A))"

definition trim_units :: "code_unit list \<Rightarrow> code_unit list" where
  "trim_units q = rev (dropWhile unit_whitespace (rev (dropWhile unit_whitespace q)))"

text \<open>
  \<^verbatim>\<open>encodeURIComponent\<close>. Letters, digits and \<^verbatim>\<open>- _ . ! ~ * ' ( )\<close> stay. Any other
  code point is written as the percent-escaped bytes of its UTF-8 encoding; a leading
  surrogate and the trailing one after it make one code point. A surrogate without its
  partner makes the function throw a URIError (the message is V8's).
\<close>

definition uri_unreserved :: "char \<Rightarrow> bool" where
  "uri_unreserved c =
     (let n = (of_char c :: nat) in
        (65 \<le> n \<and> n \<le> 90) \<or> (97 \<le> n \<and> n \<le> 122) \<or> (48 \<le> n \<and> n \<le> 57)
        \<or> c \<in> set ''-_.!~*()'' \<or> n = 39)"

definition hex_digit :: "nat \<Rightarrow> char" where
  "hex_digit d = (if d < 10 then char_of (48 + d) else char_of (55 + d))"

definition percent :: "nat \<Rightarrow> string" where
  "percent b = [CHR ''%'', hex_digit (b div 16), hex_digit (b mod 16)]"

definition utf8 :: "nat \<Rightarrow> nat list" where
  "utf8 cp =
     (if cp < 0x80 then [cp]
      else if cp < 0x800 then [0xC0 + cp div 64, 0x80 + cp mod 64]
      else if cp < 0x10000 then [0xE0 + cp div 4096, 0x80 + cp div 64 mod 64, 0x80 + cp mod 64]
      else [0xF0 + cp div 262144, 0x80 + cp div 4096 mod 64, 0x80 + cp div 64 mod 64, 0x80 + cp mod 64])"

definition escape :: "nat \<Rightarrow> string" where
  "escape cp = concat (map percent (utf8 cp))"

definition leading_surrogate :: "code_unit \<Rightarrow> bool" where
  "leading_surrogate u = (0xD800 \<le> unat u \<and> unat u \<le> 0xDBFF)"

definition trailing_surrogate :: "code_unit \<Rightarrow> bool" where
  "trailing_surrogate u = (0xDC00 \<le> unat u \<and> unat u \<le> 0xDFFF)"

definition URI_malformed :: js_error where
  "URI_malformed = URIError ''URI malformed''"

definition prepend :: "string \<Rightarrow> js_error + string \<Rightarrow> js_error + string" where
  "prepend a r = (case r of Inl e \<Rightarrow> Inl e | Inr b \<Rightarrow> Inr (a @ b))"

definition kept :: "code_unit \<Rightarrow> bool" where
  "kept u = (unat u < 128 \<and> uri_unreserved (char_of (unat u)))"

fun encodeURIComponent :: "code_unit list \<Rightarrow> js_error + string" where
  "encodeURIComponent [] = Inr []"
| "encodeURIComponent [u] =
     (if kept u then Inr [char_of (unat u)]
      else if leading_surrogate u \<or> trailing_surrogate u then Inl URI_malformed
      else Inr (escape (unat u)))"
| "encodeURIComponent (u # w # us) =
     (if kept u then prepend [char_of (unat u)] (encodeURIComponent (w # us))
      else if leading_surrogate u then
        (if trailing_surrogate w
         then prepend (escape (0x10000 + (unat u - 0xD800) * 1024 + (unat w - 0xDC00)))
                (encodeURIComponent us)
         else Inl URI_malformed)
      else if trailing_surrogate u then Inl URI_malformed
      else prepend (escape (unat u)) (encodeURIComponent (w # us)))"

section \<open>The component's state and its environment\<close>

text \<open>
  The repository holds two near-duplicate components: the themed one (ImmigrantConnect)
  and the generic one (QA Platform). They differ in the shape of two forms, in the body
  of the question-creation request, in the fact-check request after an answer, and in
  the path of the chat endpoint.
\<close>

datatype variant = Themed | Generic

record chat_message =
  msg_text :: jsval
  msg_sender :: string

record login_data =
  l_username :: string
  l_password :: string

text \<open>The last three fields exist in the themed component only.\<close>

record register_data =
  r_username :: string
  r_email :: string
  r_password :: string
  r_full_name :: string
  r_bio :: string
  r_origin_country :: string
  r_current_location :: string
  r_immigration_status :: string

text \<open>\<open>q_category\<close> and \<open>q_urgency\<close> exist in the themed component only.\<close>

record question_data =
  q_title :: string
  q_content :: string
  q_tags :: string
  q_category :: string
  q_urgency :: string

text \<open>
  What \<^verbatim>\<open>fetch\<close> is called with. \<open>url\<close> is the path that follows the constant
  \<^verbatim>\<open>API_BASE_URL\<close>; \<open>req_body\<close> is the value whose JSON text is sent.
\<close>

record request =
  url :: string
  req_method :: "string option"
  req_headers :: "(string \<times> string) list"
  req_body :: "jsval option"

text \<open>
  The second argument of \<^verbatim>\<open>apiRequest\<close>. Every call in the component passes a method
  and a body, or nothing; none passes headers.
\<close>

record options =
  opt_method :: "string option"
  opt_headers :: "(string \<times> string) list option"
  opt_body :: "jsval option"

text \<open>
  The outcome of one \<^verbatim>\<open>fetch\<close>: the promise rejects (no response), or there is a
  response with its \<^verbatim>\<open>ok\<close> flag and the outcome of \<^verbatim>\<open>response.json()\<close>, which
  rejects when the body is not JSON. The backend is any function from the requests
  made so far, the current one last, to the outcome of the current one.
\<close>

datatype fetch_result =
    Rejected js_error
  | Response bool "js_error + jsval"

type_synonym server = "request list \<Rightarrow> fetch_result"

text \<open>
  The \<^verbatim>\<open>useState\<close> variables of \<^verbatim>\<open>App\<close>, then what the component acts on outside
  itself: local storage, the requests made, the console and the alerts shown.
  \<open>selectedCategory\<close> exists in the themed component only. The last field is the
  network's: whether, of the two requests that \<^verbatim>\<open>fetchQuestion\<close> has made (the last
  two of the list given), the second is the first to fail. The component never writes
  it.
\<close>

record app_state =
  questions :: jsval
  currentQuestion :: jsval
  answers :: jsval
  user :: jsval
  token :: jsval
  authMode :: string
  loading :: bool
  isChatOpen :: bool
  chatMessages :: "chat_message list"
  chatInput :: string
  searchQuery :: "code_unit list"
  selectedCategory :: string
  loginData :: login_data
  registerData :: register_data
  questionData :: question_data
  answerContent :: string
  localStorage :: "string \<rightharpoonup> string"
  requests :: "request list"
  console :: "(string \<times> js_error) list"
  alerts :: "string list"
  second_fails_first :: "request list \<Rightarrow> bool"

definition empty_login :: login_data where
  "empty_login = \<lparr>l_username = [], l_password = []\<rparr>"

definition empty_register :: register_data where
  "empty_register =
     \<lparr>r_username = [], r_email = [], r_password = [], r_full_name = [], r_bio = [],
      r_origin_country = [], r_current_location = [], r_immigration_status = []\<rparr>"

definition empty_question :: "variant \<Rightarrow> question_data" where
  "empty_question v =
     \<lparr>q_title = [], q_content = [], q_tags = [], q_category = [],
      q_urgency = (case v of Themed \<Rightarrow> ''normal'' | Generic \<Rightarrow> [])\<rparr>"

text \<open>
  The state of the first render, from what local storage holds, on a network that
  answers in the order of the requests.
\<close>

definition init_state :: "variant \<Rightarrow> (string \<rightharpoonup> string) \<Rightarrow> app_state" where
  "init_state v ls =
     \<lparr>questions = JArr [], currentQuestion = JNull, answers = JArr [], user = JNull,
      token = (case ls ''token'' of None \<Rightarrow> JNull | Some t \<Rightarrow> JStr t),
      authMode = ''login'', loading = False, isChatOpen = False, chatMessages = [],
      chatInput = [], searchQuery = [],
      selectedCategory = (case v of Themed \<Rightarrow> ''all'' | Generic \<Rightarrow> []),
      loginData = empty_login, registerData = empty_register,
      questionData = empty_question v, answerContent = [],
      localStorage = ls, requests = [], console = [], alerts = [],
      second_fails_first = (\<lambda>h. False)\<rparr>"

definition console_error :: "string \<Rightarrow> js_error \<Rightarrow> app_state \<Rightarrow> app_state" where
  "console_error label e s = s\<lparr>console := console s @ [(label, e)]\<rparr>"

definition alert :: "string \<Rightarrow> app_state \<Rightarrow> app_state" where
  "alert m s = s\<lparr>alerts := alerts s @ [m]\<rparr>"

section \<open>The API gateway\<close>

text \<open>Object spread \<^verbatim>\<open>{...a, ...b}\<close>: a name of \<open>b\<close> already in \<open>a\<close> takes the new value.\<close>

fun assign :: "(string \<times> 'a) list \<Rightarrow> string \<times> 'a \<Rightarrow> (string \<times> 'a) list" where
  "assign [] kv = [kv]"
| "assign ((k', v') # rest) kv = (if k' = fst kv then (k', snd kv) # rest else (k', v') # assign rest kv)"

definition spread :: "(string \<times> 'a) list \<Rightarrow> (string \<times> 'a) list \<Rightarrow> (string \<times> 'a) list" where
  "spread a b = foldl assign a b"

definition GET :: options where
  "GET = \<lparr>opt_method = None, opt_headers = None, opt_body = None\<rparr>"

definition POST :: "jsval \<Rightarrow> options" where
  "POST data = \<lparr>opt_method = Some ''POST'', opt_headers = None, opt_body = Some (JSON_stringify data)\<rparr>"

text \<open>
  \<^verbatim>\<open>apiRequest\<close> (lines 58-76 and 884-902), in its steps. \<open>tok\<close> is the token of the
  render whose closure makes the call. First
  \<^verbatim>\<open>...(token && { Authorization: `Bearer ${token}` })\<close>: nothing for a falsy token;
  for any other the template literal converts it, which can throw.
\<close>

definition authorization :: "jsval \<Rightarrow> js_error + (string \<times> string) list" where
  "authorization tok =
     (if truthy tok
      then (case to_string tok of
              Inl e \<Rightarrow> Inl e
            | Inr text \<Rightarrow> Inr [(''Authorization'', ''Bearer '' @ text)])
      else Inr [])"

text \<open>
  Then \<^verbatim>\<open>config\<close>: \<^verbatim>\<open>...options\<close> comes last in it, so headers among the options
  replace the ones built here.
\<close>

definition config :: "jsval \<Rightarrow> options \<Rightarrow> string \<Rightarrow> js_error + request" where
  "config tok opts path =
     (case authorization tok of
        Inl e \<Rightarrow> Inl e
      | Inr bearer \<Rightarrow>
          (let headers =
                 spread (spread [(''Content-Type'', ''application/json'')] bearer)
                        (case opt_headers opts of None \<Rightarrow> [] | Some h \<Rightarrow> h)
           in Inr \<lparr>url = path, req_method = opt_method opts,
                   req_headers = (case opt_headers opts of None \<Rightarrow> headers | Some h \<Rightarrow> h),
                   req_body = opt_body opts\<rparr>))"

text \<open>
  Then what follows \<^verbatim>\<open>await fetch(...)\<close>: a rejected \<^verbatim>\<open>fetch\<close> throws its error;
  a response that is not ok throws \<^verbatim>\<open>new Error(error.detail || 'Request failed')\<close>,
  where \<^verbatim>\<open>error\<close> is the parsed body, or \<^verbatim>\<open>{ detail: 'Network error' }\<close> when the
  body does not parse; an ok response gives \<^verbatim>\<open>response.json()\<close>. The constructor
  converts its argument to the message.
\<close>

definition settle :: "fetch_result \<Rightarrow> js_error + jsval" where
  "settle res =
     (case res of
        Rejected e \<Rightarrow> Inl e
      | Response ok body \<Rightarrow>
          if \<not> ok then
            (let error = (case body of Inl e \<Rightarrow> JObj [(''detail'', JStr ''Network error'')]
                                     | Inr payload \<Rightarrow> payload)
             in case get_prop error ''detail'' of
                  Inl e \<Rightarrow> Inl e
                | Inr detail \<Rightarrow>
                    (case to_string (if truthy detail then detail else JStr ''Request failed'') of
                       Inl e \<Rightarrow> Inl e
                     | Inr text \<Rightarrow> Inl (Error text)))
          else body)"

text \<open>An error in \<^verbatim>\<open>config\<close> is thrown before \<^verbatim>\<open>fetch\<close> is called: no request is made.\<close>

definition apiRequest :: "server \<Rightarrow> jsval \<Rightarrow> string \<Rightarrow> options \<Rightarrow> app_state \<Rightarrow> (js_error + jsval) \<times> app_state" where
  "apiRequest sv tok path opts s =
     (case config tok opts path of
        Inl e \<Rightarrow> (Inl e, s)
      | Inr c \<Rightarrow>
          (let s' = s\<lparr>requests := requests s @ [c]\<rparr>
           in (settle (sv (requests s')), s')))"

section \<open>Fetching\<close>

text \<open>\<^verbatim>\<open>fetchUser\<close> (lines 78-87).\<close>

definition fetchUser :: "server \<Rightarrow> jsval \<Rightarrow> app_state \<Rightarrow> app_state" where
  "fetchUser sv tok s =
     (case apiRequest sv tok ''/api/me'' GET s of
        (Inr userData, s1) \<Rightarrow> s1\<lparr>user := userData\<rparr>
      | (Inl e, s1) \<Rightarrow>
          (let s2 = console_error ''Failed to fetch user:'' e s1;
               s3 = s2\<lparr>localStorage := (localStorage s2)(''token'' := None)\<rparr>
           in s3\<lparr>token := JNull\<rparr>))"

text \<open>\<^verbatim>\<open>fetchQuestions\<close> (lines 89-96).\<close>

definition fetchQuestions :: "server \<Rightarrow> jsval \<Rightarrow> app_state \<Rightarrow> app_state" where
  "fetchQuestions sv tok s =
     (case apiRequest sv tok ''/api/questions'' GET s of
        (Inr questionsData, s1) \<Rightarrow> s1\<lparr>questions := questionsData\<rparr>
      | (Inl e, s1) \<Rightarrow> console_error ''Failed to fetch questions:'' e s1)"

text \<open>
  \<^verbatim>\<open>fetchQuestion\<close> (lines 98-109). The two template literals convert the id inside
  the \<^verbatim>\<open>try\<close>: when the conversion throws, the error is logged and no request is
  made. Otherwise both requests are made before either is awaited. \<^verbatim>\<open>Promise.all\<close>
  rejects with the error of the request that fails first, which is for the network to
  decide when both fail, and the state is then left alone.
\<close>

definition fetchQuestion :: "server \<Rightarrow> jsval \<Rightarrow> jsval \<Rightarrow> app_state \<Rightarrow> app_state" where
  "fetchQuestion sv tok questionId s =
     (case to_string questionId of
        Inl e \<Rightarrow> console_error ''Failed to fetch question details:'' e s
      | Inr qid \<Rightarrow>
          (let (r1, s1) = apiRequest sv tok (''/api/questions/'' @ qid) GET s;
               (r2, s2) = apiRequest sv tok (''/api/questions/'' @ qid @ ''/answers'') GET s1
           in case r1 of
                Inl e1 \<Rightarrow>
                  (case r2 of
                     Inl e2 \<Rightarrow>
                       console_error ''Failed to fetch question details:''
                         (if second_fails_first s (requests s2) then e2 else e1) s2
                   | Inr answersData \<Rightarrow> console_error ''Failed to fetch question details:'' e1 s2)
              | Inr questionData' \<Rightarrow>
                  (case r2 of
                     Inl e2 \<Rightarrow> console_error ''Failed to fetch question details:'' e2 s2
                   | Inr answersData \<Rightarrow> s2\<lparr>currentQuestion := questionData', answers := answersData\<rparr>)))"

text \<open>
  The effect on \<^verbatim>\<open>[token]\<close> (lines 49-56): it runs after the first render and after
  each render in which the token differs from the one of the render before.
\<close>

definition token_effect :: "server \<Rightarrow> app_state \<Rightarrow> app_state" where
  "token_effect sv s =
     (if truthy (token s) then fetchQuestions sv (token s) (fetchUser sv (token s) s)
      else fetchQuestions sv (token s) s)"

text \<open>
  The renders that follow a handler which started with the token \<open>old\<close>. A failed
  \<^verbatim>\<open>fetchUser\<close> sets the token to null, which runs the effect once more.
\<close>

definition rerender :: "server \<Rightarrow> jsval \<Rightarrow> app_state \<Rightarrow> app_state" where
  "rerender sv old s =
     (if token s = old then s
      else (let s' = token_effect sv s
            in if token s' = token s then s' else token_effect sv s'))"

section \<open>The handlers\<close>

definition login_body :: "login_data \<Rightarrow> jsval" where
  "login_body d = JObj [(''username'', JStr (l_username d)), (''password'', JStr (l_password d))]"

definition register_body :: "variant \<Rightarrow> register_data \<Rightarrow> jsval" where
  "register_body v d =
     JObj ([(''username'', JStr (r_username d)), (''email'', JStr (r_email d)),
            (''password'', JStr (r_password d)), (''full_name'', JStr (r_full_name d)),
            (''bio'', JStr (r_bio d))]
           @ (case v of
                Themed \<Rightarrow> [(''origin_country'', JStr (r_origin_country d)),
                           (''current_location'', JStr (r_current_location d)),
                           (''immigration_status'', JStr (r_immigration_status d))]
              | Generic \<Rightarrow> []))"

text \<open>
  \<^verbatim>\<open>handleAuth\<close> (lines 111-134 and 937-957), after its two constants
  \<^verbatim>\<open>endpoint\<close> and \<^verbatim>\<open>data\<close>. \<^verbatim>\<open>e.preventDefault()\<close> acts on the event only and
  is left out, here and below. \<^verbatim>\<open>setToken\<close> comes before
  \<^verbatim>\<open>localStorage.setItem\<close>, which converts the token to a text and can throw; the
  token is then set, nothing is stored and the forms are not cleared.
\<close>

definition endpoint :: "app_state \<Rightarrow> string" where
  "endpoint s = (if authMode s = ''login'' then ''/api/login'' else ''/api/register'')"

definition auth_data :: "variant \<Rightarrow> app_state \<Rightarrow> jsval" where
  "auth_data v s =
     (if authMode s = ''login'' then login_body (loginData s) else register_body v (registerData s))"

definition handleAuth :: "variant \<Rightarrow> server \<Rightarrow> app_state \<Rightarrow> app_state" where
  "handleAuth v sv s =
     (let s1 = s\<lparr>loading := True\<rparr>;
          (r, s2) = apiRequest sv (token s) (endpoint s) (POST (auth_data v s)) s1;
          s5 = (case r of
                  Inl e \<Rightarrow> alert (message e) s2
                | Inr response \<Rightarrow>
                    (case get_prop response ''access_token'' of
                       Inl e \<Rightarrow> alert (message e) s2
                     | Inr access_token \<Rightarrow>
                         (let s3 = s2\<lparr>token := access_token\<rparr>
                          in case to_string access_token of
                               Inl e \<Rightarrow> alert (message e) s3
                             | Inr text \<Rightarrow>
                                 (let s4 = s3\<lparr>localStorage := (localStorage s3)(''token'' \<mapsto> text)\<rparr>
                                  in s4\<lparr>loginData := empty_login, registerData := empty_register\<rparr>))))
      in s5\<lparr>loading := False\<rparr>)"

text \<open>\<^verbatim>\<open>questionData.tags.split(',').map(tag => tag.trim()).filter(tag => tag)\<close>\<close>

definition parse_tags :: "string \<Rightarrow> string list" where
  "parse_tags tags = filter (\<lambda>tag. truthy (JStr tag)) (map trim (split CHR '','' tags))"

definition question_body :: "variant \<Rightarrow> question_data \<Rightarrow> jsval" where
  "question_body v d =
     (let tags = parse_tags (q_tags d)
      in case v of
           Themed \<Rightarrow>
             JObj [(''title'', JStr (q_title d)), (''content'', JStr (q_content d)),
                   (''tags'', JArr (map JStr (tags @ [q_category d]))),
                   (''category'', JStr (q_category d)), (''urgency'', JStr (q_urgency d))]
         | Generic \<Rightarrow>
             JObj [(''title'', JStr (q_title d)), (''content'', JStr (q_content d)),
                   (''tags'', JArr (map JStr tags))])"

text \<open>\<^verbatim>\<open>handleCreateQuestion\<close> (lines 136-160 and 959-981).\<close>

definition handleCreateQuestion :: "variant \<Rightarrow> server \<Rightarrow> app_state \<Rightarrow> app_state" where
  "handleCreateQuestion v sv s =
     (if \<not> truthy (token s) then s
      else
        (let s1 = s\<lparr>loading := True\<rparr>;
             (r, s2) = apiRequest sv (token s) ''/api/questions'' (POST (question_body v (questionData s))) s1;
             s3 = (case r of
                     Inl e \<Rightarrow> alert (message e) s2
                   | Inr _ \<Rightarrow> fetchQuestions sv (token s) (s2\<lparr>questionData := empty_question v\<rparr>))
         in s3\<lparr>loading := False\<rparr>))"

text \<open>
  The inner \<^verbatim>\<open>try\<close> of the themed \<^verbatim>\<open>handleCreateAnswer\<close> (lines 173-185): the
  fact-check request, whose failure is logged and goes no further.
\<close>

definition factCheck :: "server \<Rightarrow> jsval \<Rightarrow> jsval \<Rightarrow> app_state \<Rightarrow> app_state \<Rightarrow> app_state" where
  "factCheck sv tok answer s0 s =
     (case get_prop answer ''id'' of
        Inl e \<Rightarrow> console_error ''Fact-check failed:'' e s
      | Inr answer_id \<Rightarrow>
          (case get_prop (currentQuestion s0) ''title'' of
             Inl e \<Rightarrow> console_error ''Fact-check failed:'' e s
           | Inr question_title \<Rightarrow>
               (case apiRequest sv tok ''/api/fact-check-answer''
                       (POST (JObj [(''answer_id'', answer_id), (''question_title'', question_title),
                                    (''answer_content'', JStr (answerContent s0))])) s of
                  (Inl e, s1) \<Rightarrow> console_error ''Fact-check failed:'' e s1
                | (Inr _, s1) \<Rightarrow> s1)))"

text \<open>
  \<^verbatim>\<open>handleCreateAnswer\<close> (lines 162-193 and 983-1000). Only the themed component
  triggers the fact check. The template literal of the path converts the id of the
  question inside the outer \<^verbatim>\<open>try\<close>.
\<close>

definition handleCreateAnswer :: "variant \<Rightarrow> server \<Rightarrow> app_state \<Rightarrow> app_state" where
  "handleCreateAnswer v sv s =
     (if \<not> truthy (token s) \<or> \<not> truthy (currentQuestion s) then s
      else
        (let s1 = s\<lparr>loading := True\<rparr>;
             s4 = (case get_prop (currentQuestion s) ''id'' of
                     Inl e \<Rightarrow> alert (message e) s1
                   | Inr questionId \<Rightarrow>
                       (case to_string questionId of
                          Inl e \<Rightarrow> alert (message e) s1
                        | Inr qid \<Rightarrow>
                            (case apiRequest sv (token s) (''/api/questions/'' @ qid @ ''/answers'')
                                    (POST (JObj [(''content'', JStr (answerContent s))])) s1 of
                               (Inl e, s2) \<Rightarrow> alert (message e) s2
                             | (Inr answer, s2) \<Rightarrow>
                                 (let s3 = (case v of Themed \<Rightarrow> factCheck sv (token s) answer s s2
                                                    | Generic \<Rightarrow> s2)
                                  in fetchQuestion sv (token s) questionId (s3\<lparr>answerContent := []\<rparr>)))))
         in s4\<lparr>loading := False\<rparr>))"

text \<open>
  \<^verbatim>\<open>handleVote\<close> (lines 195-216 and 1002-1023). \<^verbatim>\<open>user.id\<close> is read inside the
  \<^verbatim>\<open>try\<close>, before the request is made.
\<close>

definition vote_body :: "jsval \<Rightarrow> jsval \<Rightarrow> jsval \<Rightarrow> jsval \<Rightarrow> jsval" where
  "vote_body user_id targetId targetType vote =
     JObj [(''user_id'', user_id), (''target_id'', targetId), (''target_type'', targetType),
           (''value'', vote)]"

definition handleVote :: "server \<Rightarrow> jsval \<Rightarrow> jsval \<Rightarrow> jsval \<Rightarrow> app_state \<Rightarrow> app_state" where
  "handleVote sv targetId targetType vote s =
     (if \<not> truthy (token s) then s
      else
        (case get_prop (user s) ''id'' of
           Inl e \<Rightarrow> console_error ''Vote failed:'' e s
         | Inr user_id \<Rightarrow>
             (case apiRequest sv (token s) ''/api/vote'' (POST (vote_body user_id targetId targetType vote)) s of
                (Inl e, s1) \<Rightarrow> console_error ''Vote failed:'' e s1
              | (Inr _, s1) \<Rightarrow>
                  (if truthy (currentQuestion s) then
                     (case get_prop (currentQuestion s) ''id'' of
                        Inl e \<Rightarrow> console_error ''Vote failed:'' e s1
                      | Inr questionId \<Rightarrow>
                          fetchQuestions sv (token s) (fetchQuestion sv (token s) questionId s1))
                   else fetchQuestions sv (token s) s1))))"

definition chat_endpoint :: "variant \<Rightarrow> string" where
  "chat_endpoint v = (case v of Themed \<Rightarrow> ''/api/immigration-chat'' | Generic \<Rightarrow> ''/api/chat'')"

definition chat_fallback :: string where
  "chat_fallback = ''Sorry, I encountered an error. Please try again.''"

text \<open>
  \<^verbatim>\<open>handleChatMessage\<close> (lines 218-238 and 1025-1045). The request carries the
  \<^verbatim>\<open>chatInput\<close> of the render that made the handler, not the cleared one.
\<close>

definition handleChatMessage :: "variant \<Rightarrow> server \<Rightarrow> app_state \<Rightarrow> app_state" where
  "handleChatMessage v sv s =
     (if \<not> truthy (JStr (trim (chatInput s))) \<or> \<not> truthy (token s) then s
      else
        (let userMessage = \<lparr>msg_text = JStr (chatInput s), msg_sender = ''user''\<rparr>;
             s1 = s\<lparr>chatMessages := chatMessages s @ [userMessage]\<rparr>;
             s2 = s1\<lparr>chatInput := []\<rparr>;
             (r, s3) = apiRequest sv (token s) (chat_endpoint v)
                         (POST (JObj [(''message'', JStr (chatInput s))])) s2;
             failed = (\<lambda>e. let s4 = console_error ''Chat failed:'' e s3;
                                errorMessage = \<lparr>msg_text = JStr chat_fallback, msg_sender = ''ai''\<rparr>
                            in s4\<lparr>chatMessages := chatMessages s4 @ [errorMessage]\<rparr>)
         in case r of
              Inl e \<Rightarrow> failed e
            | Inr response \<Rightarrow>
                (case get_prop response ''response'' of
                   Inl e \<Rightarrow> failed e
                 | Inr reply \<Rightarrow>
                     (let aiMessage = \<lparr>msg_text = reply, msg_sender = ''ai''\<rparr>
                      in s3\<lparr>chatMessages := chatMessages s3 @ [aiMessage]\<rparr>))))"

text \<open>
  \<^verbatim>\<open>handleSearch\<close> (lines 240-252 and 1047-1059). \<^verbatim>\<open>encodeURIComponent\<close> is called
  inside the \<^verbatim>\<open>try\<close>: when it throws, the error is logged and no request is made.
\<close>

definition handleSearch :: "server \<Rightarrow> app_state \<Rightarrow> app_state" where
  "handleSearch sv s =
     (if trim_units (searchQuery s) = [] then fetchQuestions sv (token s) s
      else
        (case encodeURIComponent (searchQuery s) of
           Inl e \<Rightarrow> console_error ''Search failed:'' e s
         | Inr q \<Rightarrow>
             (case apiRequest sv (token s) (''/api/search?q='' @ q) GET s of
                (Inl e, s1) \<Rightarrow> console_error ''Search failed:'' e s1
              | (Inr results, s1) \<Rightarrow> s1\<lparr>questions := results\<rparr>)))"

text \<open>\<^verbatim>\<open>logout\<close> (lines 264-270 and 1071-1077).\<close>

definition logout :: "app_state \<Rightarrow> app_state" where
  "logout s =
     (let s1 = s\<lparr>token := JNull\<rparr>;
          s2 = s1\<lparr>user := JNull\<rparr>;
          s3 = s2\<lparr>localStorage := (localStorage s2)(''token'' := None)\<rparr>;
          s4 = s3\<lparr>currentQuestion := JNull\<rparr>
      in s4\<lparr>answers := JArr []\<rparr>)"

section \<open>What is rendered\<close>

text \<open>
  \<^verbatim>\<open>App\<close> returns the auth screen when \<^verbatim>\<open>!token\<close> (lines 289 and 1079); otherwise
  the list of questions or, with a current question, its detail, and over either the
  chat dialog with the transcript when \<^verbatim>\<open>isChatOpen\<close>.
\<close>

datatype screen = AuthScreen | QuestionList | QuestionDetail

definition render :: "app_state \<Rightarrow> screen" where
  "render s =
     (if \<not> truthy (token s) then AuthScreen
      else if \<not> truthy (currentQuestion s) then QuestionList
      else QuestionDetail)"

definition chat_dialog :: "app_state \<Rightarrow> chat_message list option" where
  "chat_dialog s = (if truthy (token s) \<and> isChatOpen s then Some (chatMessages s) else None)"

text \<open>The button that opens the chat dialog: \<^verbatim>\<open>onClick={() => setIsChatOpen(true)}\<close>.\<close>

definition openChat :: "app_state \<Rightarrow> app_state" where
  "openChat s = s\<lparr>isChatOpen := True\<rparr>"

section \<open>Observing a run\<close>

text \<open>The requests that a handler makes when it runs from the state \<open>s\<close>, in order.\<close>

definition sent :: "(app_state \<Rightarrow> app_state) \<Rightarrow> app_state \<Rightarrow> request list" where
  "sent h s = drop (length (requests s)) (requests (h s))"

text \<open>
  The request that \<^verbatim>\<open>config\<close> describes for a call with no headers among its
  options, given the \<^verbatim>\<open>Authorization\<close> header or none.
\<close>

definition request_with :: "(string \<times> string) list \<Rightarrow> options \<Rightarrow> string \<Rightarrow> request" where
  "request_with bearer opts path =
     \<lparr>url = path, req_method = opt_method opts,
      req_headers = (''Content-Type'', ''application/json'') # bearer, req_body = opt_body opts\<rparr>"

text \<open>
  What one call of \<^verbatim>\<open>apiRequest\<close> adds to the requests: the request of its
  \<^verbatim>\<open>config\<close>, or nothing when \<^verbatim>\<open>config\<close> throws.
\<close>

definition requested :: "jsval \<Rightarrow> options \<Rightarrow> string \<Rightarrow> request list" where
  "requested tok opts path = (case config tok opts path of Inl e \<Rightarrow> [] | Inr c \<Rightarrow> [c])"

text \<open>The requests of \<^verbatim>\<open>fetchQuestion\<close>: none when the id does not convert.\<close>

definition question_requests :: "jsval \<Rightarrow> jsval \<Rightarrow> request list" where
  "question_requests tok questionId =
     (case to_string questionId of
        Inl e \<Rightarrow> []
      | Inr qid \<Rightarrow>
          requested tok GET (''/api/questions/'' @ qid)
          @ requested tok GET (''/api/questions/'' @ qid @ ''/answers''))"

text \<open>
  What one call of \<^verbatim>\<open>apiRequest\<close> returns (\<open>Inr\<close>) or throws (\<open>Inl\<close>) when \<open>h\<close>
  are the requests made before it.
\<close>

definition reply :: "server \<Rightarrow> jsval \<Rightarrow> string \<Rightarrow> options \<Rightarrow> request list \<Rightarrow> js_error + jsval" where
  "reply sv tok path opts h =
     (case config tok opts path of Inl e \<Rightarrow> Inl e | Inr c \<Rightarrow> settle (sv (h @ [c])))"

text \<open>
  The token of a state converts: it is falsy, or the template literal of the
  \<^verbatim>\<open>Authorization\<close> header gives a text for it.
\<close>

definition token_converts :: "app_state \<Rightarrow> bool" where
  "token_converts s = (case authorization (token s) of Inl e \<Rightarrow> False | Inr h \<Rightarrow> True)"

text \<open>A query with no surrogate but a leading one followed by a trailing one.\<close>

fun well_formed :: "code_unit list \<Rightarrow> bool" where
  "well_formed [] = True"
| "well_formed [u] = (\<not> leading_surrogate u \<and> \<not> trailing_surrogate u)"
| "well_formed (u # w # us) =
     (if leading_surrogate u then trailing_surrogate w \<and> well_formed us
      else \<not> trailing_surrogate u \<and> well_formed (w # us))"

text \<open>
  A backend to run the handlers against: it knows one user, two questions, one answer
  to the first, and answers every other path with a 404 and a detail.
\<close>

definition question1 :: jsval where
  "question1 =
     JObj [(''id'', JStr ''q1''), (''title'', JStr ''Visa renewal''), (''content'', JStr ''How early?''),
           (''author_username'', JStr ''ana''), (''tags'', JArr [JStr ''visa'']),
           (''votes'', JNum ''4''), (''views'', JNum ''12''), (''answers_count'', JNum ''1''),
           (''created_at'', JStr ''2024-05-01T10:00:00''), (''urgency'', JStr ''normal'')]"

definition answer1 :: jsval where
  "answer1 =
     JObj [(''id'', JStr ''a1''), (''content'', JStr ''Apply early''), (''author_username'', JStr ''ben''),
           (''votes'', JNum ''1''), (''created_at'', JStr ''2024-05-02T09:30:00'')]"

definition user1 :: jsval where
  "user1 = JObj [(''id'', JStr ''u1''), (''username'', JStr ''ana''), (''full_name'', JStr ''Ana Silva''),
                 (''reputation'', JNum ''10'')]"

definition question2 :: jsval where
  "question2 =
     JObj [(''id'', JStr ''q2''), (''title'', JStr ''School enrolment''), (''content'', JStr ''Which papers?''),
           (''author_username'', JStr ''ben''), (''tags'', JArr [JStr ''education'', JStr ''documents'']),
           (''votes'', JNum ''0''), (''views'', JNum ''3''), (''answers_count'', JNum ''0''),
           (''created_at'', JStr ''2024-05-03T08:15:00''), (''urgency'', JStr ''high'')]"

definition demo_server :: server where
  "demo_server h =
     (let path = url (last h) in
        if path = ''/api/login'' then Response True (Inr (JObj [(''access_token'', JStr ''tok1'')]))
        else if path = ''/api/me'' then Response True (Inr user1)
        else if path = ''/api/questions'' then Response True (Inr (JArr [question1, question2]))
        else if path = ''/api/search?q=visa%20%26%20work'' then Response True (Inr (JArr [question1]))
        else if path = ''/api/questions/q1'' then Response True (Inr question1)
        else if path = ''/api/questions/q1/answers'' then
          (if req_method (last h) = Some ''POST'' then Response True (Inr answer1)
           else Response True (Inr (JArr [answer1])))
        else if path = ''/api/vote'' then Response True (Inr (JObj [(''message'', JStr ''Vote recorded'')]))
        else if path = ''/api/chat'' then Response True (Inr (JObj [(''response'', JStr ''Hello'')]))
        else Response False (Inr (JObj [(''detail'', JStr ''Not Found'')])))"

text \<open>A backend that refuses every request.\<close>

definition failing_server :: server where
  "failing_server h = Response False (Inr (JObj [(''detail'', JStr ''Service unavailable'')]))"

text \<open>
  A session of the generic component: logged in, the question open, a chat transcript
  of one turn, a question half typed, a query in the search field.
\<close>

definition demo_state :: app_state where
  "demo_state =
     (init_state Generic [''token'' \<mapsto> ''tok1''])
       \<lparr>questions := JArr [question1], currentQuestion := question1, answers := JArr [answer1],
        user := user1,
        chatMessages := [\<lparr>msg_text = JStr ''Hi'', msg_sender = ''user''\<rparr>,
                         \<lparr>msg_text = JStr ''Hello'', msg_sender = ''ai''\<rparr>],
        chatInput := ''How long does it take?'', searchQuery := utf16 ''visa & work'',
        questionData := \<lparr>q_title = ''Work permit'', q_content = ''Which form?'', q_tags = ''a, b'',
                          q_category = ''employment'', q_urgency = ''normal''\<rparr>,
        answerContent := ''Try the consulate''\<rparr>"

section \<open>Examples\<close>

lemma to_string_examples:
  "to_string (JNum ''42'') = Inr ''42''"
  "to_string (JNum ''1e+21'') = Inr ''1e+21''"
  "to_string (JArr [JNum ''1'', JNull, JStr ''x'', JArr [JBool True, Undefined]]) = Inr ''1,,x,true,''"
  "to_string (JObj [(''id'', JStr ''q1'')]) = Inr ''[object Object]''"
  "to_string (JObj [(''toString'', JNum ''1'')]) = Inl (TypeError ''Cannot convert object to primitive value'')"
  "to_string (JArr [JStr ''a'', JObj [(''toString'', JNull)]]) = Inl (TypeError ''Cannot convert object to primitive value'')"
  by (simp_all add: join_def)

lemma string_examples:
  "split CHR '','' ''a, b'' = [''a'', '' b'']"
  "split CHR '','' '''' = ['''']"
  "split CHR '','' '',a,,'' = ['''', ''a'', '''', '''']"
  "trim ''  a b  '' = ''a b''"
  by code_simp+

lemmas encode_simps =
  utf16_def kept_def uri_unreserved_def leading_surrogate_def trailing_surrogate_def URI_malformed_def
  prepend_def escape_def utf8_def percent_def hex_digit_def char_of_def bit_Suc_0_iff

lemma encodeURIComponent_examples:
  "encodeURIComponent (utf16 ''a b&c=d/e'') = Inr ''a%20b%26c%3Dd%2Fe''"
  "encodeURIComponent (utf16 ''visa & work'') = Inr ''visa%20%26%20work''"
  "encodeURIComponent [0xE9] = Inr ''%C3%A9''"
  "encodeURIComponent [0x20AC] = Inr ''%E2%82%AC''"
  "encodeURIComponent [0xD83D, 0xDE00] = Inr ''%F0%9F%98%80''"
  "encodeURIComponent [0x61, 0xD83D] = Inl (URIError ''URI malformed'')"
  "encodeURIComponent [0xDE00, 0x61] = Inl (URIError ''URI malformed'')"
  "encodeURIComponent [0xD83D, 0x61] = Inl (URIError ''URI malformed'')"
  by (simp_all add: encode_simps)

lemma trim_units_examples:
  "trim_units (utf16 ''  visa  '') = utf16 ''visa''"
  "trim_units [0x2003, 0xFEFF, 0x20] = []"
  "trim_units [0xD83D] = [0xD83D]"
  by (simp_all add: trim_units_def utf16_def unit_whitespace_def)

section \<open>Properties of the string functions\<close>

lemma foldl_join:
  "foldl (\<lambda>acc z. acc @ sep @ z) (a @ b) zs = a @ foldl (\<lambda>acc z. acc @ sep @ z) b zs"
  by (induction zs arbitrary: b) simp_all

lemma join_Cons2: "join sep (x # y # ys) = x @ sep @ join sep (y # ys)"
  using foldl_join [of sep "x @ sep" y ys] by (simp add: join_def)

lemma join_head: "join sep ((c # p) # ps) = c # join sep (p # ps)"
  using foldl_join [of sep "[c]" p ps] by (simp add: join_def)

lemma split_not_Nil: "split sep s \<noteq> []"
  by (induction s) (auto split: list.splits)

text \<open>Joining the pieces with the separator gives the string back, and no piece holds it.\<close>

lemma join_split: "join [sep] (split sep s) = s"
proof (induction s)
  case Nil
  show ?case by (simp add: join_def)
next
  case (Cons c cs)
  obtain p ps where ps: "split sep cs = p # ps"
    using split_not_Nil [of sep cs] by (cases "split sep cs") auto
  show ?case
  proof (cases "c = sep")
    case True
    with Cons ps show ?thesis
      by (simp add: join_Cons2)
  next
    case False
    with Cons ps show ?thesis
      by (simp add: join_head)
  qed
qed

lemma split_no_sep: "p \<in> set (split sep s) \<Longrightarrow> sep \<notin> set p"
proof (induction s arbitrary: p)
  case Nil
  then show ?case by simp
next
  case (Cons c cs)
  then show ?case
    by (cases "split sep cs") (auto split: if_splits)
qed

text \<open>\<open>trim\<close> removes white space at both ends and nothing else.\<close>

lemma trim_decomposition:
  "\<exists>l r. s = l @ trim s @ r \<and> (\<forall>c \<in> set l. js_whitespace c) \<and> (\<forall>c \<in> set r. js_whitespace c)"
proof -
  let ?a = "dropWhile js_whitespace s"
  let ?l = "takeWhile js_whitespace s"
  let ?r = "rev (takeWhile js_whitespace (rev ?a))"
  have "rev ?a = takeWhile js_whitespace (rev ?a) @ dropWhile js_whitespace (rev ?a)"
    by simp
  then have "?a = trim s @ ?r"
    by (metis rev_append rev_rev_ident trim_def)
  then have "s = ?l @ trim s @ ?r"
    by (metis takeWhile_dropWhile_id)
  moreover have "\<forall>c \<in> set ?l. js_whitespace c"
    by (auto dest: set_takeWhileD)
  moreover have "\<forall>c \<in> set ?r. js_whitespace c"
    by (auto dest: set_takeWhileD)
  ultimately show ?thesis by blast
qed

lemma trim_ends:
  assumes "trim s \<noteq> []"
  shows "\<not> js_whitespace (hd (trim s)) \<and> \<not> js_whitespace (last (trim s))"
proof -
  let ?a = "dropWhile js_whitespace s"
  let ?b = "dropWhile js_whitespace (rev ?a)"
  have b: "?b \<noteq> []" and t: "trim s = rev ?b"
    using assms by (simp_all add: trim_def)
  have "?b = []" if "?a = []"
    unfolding that by simp
  with b have a: "?a \<noteq> []"
    by blast
  have last_drop: "dropWhile P xs \<noteq> [] \<Longrightarrow> last (dropWhile P xs) = last xs" for P and xs :: string
    by (induction xs) auto
  have "last ?b = hd ?a"
    using b a by (simp add: last_drop last_rev)
  moreover have "\<not> js_whitespace (hd ?a)"
    using a by (simp add: hd_dropWhile)
  moreover have "\<not> js_whitespace (hd ?b)"
    using b by (simp add: hd_dropWhile)
  ultimately show ?thesis
    using b by (simp add: t hd_rev last_rev)
qed

text \<open>Every tag sent is non-empty, holds no comma and has no white space at either end.\<close>

lemma parse_tags_clean:
  assumes "tag \<in> set (parse_tags tags)"
  shows "tag \<noteq> [] \<and> CHR '','' \<notin> set tag \<and> \<not> js_whitespace (hd tag) \<and> \<not> js_whitespace (last tag)"
proof -
  from assms obtain piece where piece: "piece \<in> set (split CHR '','' tags)" and tag: "tag = trim piece"
    and nonempty: "tag \<noteq> []"
    by (auto simp: parse_tags_def)
  obtain l r where "piece = l @ trim piece @ r"
    using trim_decomposition [of piece] by blast
  then have "set (trim piece) \<subseteq> set piece"
    by (metis Un_upper1 Un_upper2 set_append subset_trans)
  with split_no_sep [OF piece] have "CHR '','' \<notin> set tag"
    by (auto simp: tag)
  with nonempty trim_ends [of piece] show ?thesis
    by (simp add: tag)
qed

text \<open>
  \<^verbatim>\<open>encodeURIComponent\<close> throws exactly on the queries that hold a surrogate
  without its partner.
\<close>

lemma prepend_Inr_iff: "(\<exists>r. prepend a x = Inr r) \<longleftrightarrow> (\<exists>r. x = Inr r)"
  by (cases x) (simp_all add: prepend_def)

lemma encodeURIComponent_well_formed:
  "(\<exists>text. encodeURIComponent q = Inr text) \<longleftrightarrow> well_formed q"
proof (induction q rule: encodeURIComponent.induct)
  case 1
  show ?case by simp
next
  case (2 u)
  have "kept u \<Longrightarrow> \<not> leading_surrogate u \<and> \<not> trailing_surrogate u"
    by (simp add: kept_def leading_surrogate_def trailing_surrogate_def)
  then show ?case by auto
next
  case (3 u w us)
  have ascii: "kept u \<Longrightarrow> \<not> leading_surrogate u \<and> \<not> trailing_surrogate u"
    by (simp add: kept_def leading_surrogate_def trailing_surrogate_def)
  have apart: "leading_surrogate u \<Longrightarrow> \<not> trailing_surrogate u"
    by (simp add: leading_surrogate_def trailing_surrogate_def)
  show ?case
  proof (cases "kept u")
    case True
    with 3(1) ascii show ?thesis
      by (simp add: prepend_Inr_iff)
  next
    case plain: False
    show ?thesis
    proof (cases "leading_surrogate u")
      case True
      with plain 3(2) show ?thesis
        by (simp add: prepend_Inr_iff)
    next
      case False
      with plain 3(3) show ?thesis
        by (simp add: prepend_Inr_iff)
    qed
  qed
qed

lemma encodeURIComponent_throws:
  "\<not> well_formed q \<Longrightarrow> encodeURIComponent q = Inl URI_malformed"
proof (induction q rule: encodeURIComponent.induct)
  case 1
  then show ?case by simp
next
  case (2 u)
  have "kept u \<Longrightarrow> \<not> leading_surrogate u \<and> \<not> trailing_surrogate u"
    by (simp add: kept_def leading_surrogate_def trailing_surrogate_def)
  with 2 show ?case by auto
next
  case (3 u w us)
  have ascii: "kept u \<Longrightarrow> \<not> leading_surrogate u \<and> \<not> trailing_surrogate u"
    by (simp add: kept_def leading_surrogate_def trailing_surrogate_def)
  show ?case
  proof (cases "kept u")
    case True
    with 3(1,4) ascii show ?thesis
      by (simp add: prepend_def)
  next
    case plain: False
    show ?thesis
    proof (cases "leading_surrogate u")
      case True
      with plain 3(2,4) show ?thesis
        by (auto simp: prepend_def)
    next
      case False
      with plain 3(3,4) show ?thesis
        by (auto simp: prepend_def)
    qed
  qed
qed

text \<open>A query of code points below 256 is well formed.\<close>

lemma well_formed_utf16: "well_formed (utf16 s)"
proof -
  have small: "\<not> leading_surrogate (of_nat (of_char c)) \<and> \<not> trailing_surrogate (of_nat (of_char c))" for c
  proof -
    have "(of_char c :: nat) < 256"
      by (rule nat_of_char_less_256)
    moreover have "of_char c mod 65536 \<le> (of_char c :: nat)"
      by (rule mod_less_eq_dividend)
    ultimately have "(of_char c :: nat) mod 65536 < 256"
      by (rule le_less_trans [rotated])
    then have "unat (of_nat (of_char c) :: code_unit) < 256"
      by (simp add: unat_of_nat)
    then show ?thesis
      by (simp add: leading_surrogate_def trailing_surrogate_def)
  qed
  have "\<forall>u \<in> set q. \<not> leading_surrogate u \<and> \<not> trailing_surrogate u \<Longrightarrow> well_formed q" for q
    by (induction q rule: well_formed.induct) simp_all
  then show ?thesis
    using small by (simp add: utf16_def)
qed

text \<open>The bytes of an escape are two hexadecimal digits each.\<close>

lemma hex_digit_range:
  assumes "d < 16"
  shows "hex_digit d \<in> set ''0123456789ABCDEF''"
proof -
  from assms have "d = 0 \<or> d = 1 \<or> d = 2 \<or> d = 3 \<or> d = 4 \<or> d = 5 \<or> d = 6 \<or> d = 7 \<or> d = 8
      \<or> d = 9 \<or> d = 10 \<or> d = 11 \<or> d = 12 \<or> d = 13 \<or> d = 14 \<or> d = 15"
    by arith
  then show ?thesis
    by (elim disjE) (simp_all add: hex_digit_def char_of_def bit_Suc_0_iff)
qed

lemma percent_range:
  assumes "b < 256"
  shows "set (percent b) \<subseteq> set ''%0123456789ABCDEF''"
proof -
  from assms have "b div 16 < 16" "b mod 16 < 16"
    by simp_all
  then have "hex_digit (b div 16) \<in> set ''0123456789ABCDEF''" "hex_digit (b mod 16) \<in> set ''0123456789ABCDEF''"
    by (simp_all only: hex_digit_range)
  then show ?thesis
    unfolding percent_def by simp
qed

lemma utf8_range:
  assumes "cp < 0x110000"
  shows "\<forall>b \<in> set (utf8 cp). b < 256"
proof -
  have low: "n mod 64 < 128" for n :: nat
    using mod_less_divisor [of 64 n] by linarith
  from assms show ?thesis
    unfolding utf8_def by (simp add: low div_less_iff_less_mult less_mult_imp_div_less)
qed

lemma escape_range:
  assumes "cp < 0x110000"
  shows "set (escape cp) \<subseteq> set ''%0123456789ABCDEF''"
  using utf8_range [OF assms] percent_range unfolding escape_def by fastforce


lemma encodeURIComponent_within:
  assumes esc: "\<And>cp. cp < 0x110000 \<Longrightarrow> set (escape cp) \<subseteq> H"
    and keep: "\<And>u. kept u \<Longrightarrow> char_of (unat u) \<in> H"
    and "encodeURIComponent q = Inr encoded"
  shows "set encoded \<subseteq> H"
  using assms(3)
proof (induction q arbitrary: encoded rule: encodeURIComponent.induct)
  case 1
  then show ?case
    by simp
next
  case (2 u)
  have "unat u < 2 ^ LENGTH(16)"
    by (rule unsigned_less)
  then have "unat u < 0x110000"
    by simp
  from esc [OF this] 2 show ?case
    by (auto simp: keep split: if_splits)
next
  case (3 u w us)
  have "unat u < 2 ^ LENGTH(16)"
    by (rule unsigned_less)
  then have single: "unat u < 0x110000"
    by simp
  have pair: "0x10000 + (unat u - 0xD800) * 1024 + (unat w - 0xDC00) < 0x110000"
    if "leading_surrogate u" "trailing_surrogate w"
    using that unfolding leading_surrogate_def trailing_surrogate_def by linarith
  show ?case
  proof (cases "kept u")
    case True
    with 3(4) obtain rest where "encodeURIComponent (w # us) = Inr rest" "encoded = char_of (unat u) # rest"
      by (auto simp: prepend_def split: sum.splits)
    with 3(1) [OF True] keep [OF True] show ?thesis
      by simp
  next
    case False
    show ?thesis
    proof (cases "leading_surrogate u")
      case lead: True
      with False 3(4) have trail: "trailing_surrogate w"
        by (simp split: if_splits)
      with False lead 3(4) obtain rest where "encodeURIComponent us = Inr rest"
        "encoded = escape (0x10000 + (unat u - 0xD800) * 1024 + (unat w - 0xDC00)) @ rest"
        by (auto simp: prepend_def split: sum.splits)
      with 3(2) [OF False lead trail] esc [OF pair [OF lead trail]] show ?thesis
        by simp
    next
      case no_lead: False
      with False 3(4) have no_trail: "\<not> trailing_surrogate u"
        by (simp split: if_splits)
      with False no_lead 3(4) obtain rest where "encodeURIComponent (w # us) = Inr rest"
        "encoded = escape (unat u) @ rest"
        by (auto simp: prepend_def split: sum.splits)
      with 3(3) [OF False no_lead no_trail] esc [OF single] show ?thesis
        by simp
    qed
  qed
qed

text \<open>
  What \<^verbatim>\<open>encodeURIComponent\<close> returns is made of the characters that it keeps and
  of escapes: no space, \<^verbatim>\<open>&\<close>, \<^verbatim>\<open>=\<close>, \<^verbatim>\<open>#\<close> or \<^verbatim>\<open>/\<close> of the query reaches the URL.
\<close>

lemma encodeURIComponent_range:
  assumes "encodeURIComponent q = Inr encoded"
  shows "set encoded \<subseteq> {c. uri_unreserved c} \<union> set ''%0123456789ABCDEF''"
proof (rule encodeURIComponent_within [OF _ _ assms])
  show "set (escape cp) \<subseteq> {c. uri_unreserved c} \<union> set ''%0123456789ABCDEF''" if "cp < 0x110000" for cp
    using escape_range [OF that] by (rule subset_trans) (rule Un_upper2)
  show "char_of (unat u) \<in> {c. uri_unreserved c} \<union> set ''%0123456789ABCDEF''" if "kept u" for u
    using that by (simp add: kept_def del: set_simps)
qed
section \<open>The gateway's contract\<close>

lemma settle_Inr_iff: "settle res = Inr v \<longleftrightarrow> res = Response True (Inr v)"
  by (cases res) (auto simp: settle_def Let_def split: sum.splits)

lemma settle_not_json: "settle (Response False (Inl e)) = Inl (Error ''Network error'')"
  by (simp add: settle_def)

lemma settle_detail:
  assumes "get_prop payload ''detail'' = Inr detail"
  shows "settle (Response False (Inr payload)) =
           (case to_string (if truthy detail then detail else JStr ''Request failed'') of
              Inl e \<Rightarrow> Inl e
            | Inr text \<Rightarrow> Inl (Error text))"
  using assms by (simp add: settle_def)

lemma settle_object:
  "settle (Response False (Inr (JObj kvs))) =
     (case map_of kvs ''detail'' of
        None \<Rightarrow> Inl (Error ''Request failed'')
      | Some d \<Rightarrow>
          if truthy d then (case to_string d of Inl e \<Rightarrow> Inl e | Inr text \<Rightarrow> Inl (Error text))
          else Inl (Error ''Request failed''))"
  by (simp add: settle_def split: option.splits)

text \<open>
  A detail that is not a string is converted by \<^verbatim>\<open>new Error\<close>: the list of objects
  that a validation error carries becomes the message \<^verbatim>\<open>[object Object]\<close>, and a
  detail that cannot be converted makes the constructor throw.
\<close>

lemma settle_validation_error:
  "settle (Response False (Inr (JObj [(''detail'', JArr [JObj [(''msg'', JStr ''field required'')]])])))
     = Inl (Error ''[object Object]'')"
  by (simp add: settle_def join_def)

lemma settle_detail_unconvertible:
  "settle (Response False (Inr (JObj [(''detail'', JObj [(''toString'', JNum ''1'')])])))
     = Inl (TypeError ''Cannot convert object to primitive value'')"
  by (simp add: settle_def)

text \<open>A payload that is \<^verbatim>\<open>null\<close> has no properties to read.\<close>

lemma settle_null: "settle (Response False (Inr JNull)) = Inl (cannot_read ''null'' ''detail'')"
  by (simp add: settle_def)

lemma settle_ok: "settle (Response True body) = body"
  by (simp add: settle_def)

lemma settle_rejected: "settle (Rejected e) = Inl e"
  by (simp add: settle_def)

text \<open>The one error of a conversion.\<close>

lemma first_error_Inl:
  "first_error rs = Inl e \<Longrightarrow> Inl e \<in> set rs"
  by (induction rs rule: first_error.induct) (auto split: sum.splits)

lemma to_string_error:
  "to_string x = Inl e \<Longrightarrow> e = TypeError ''Cannot convert object to primitive value''"
proof (induction x rule: to_string.induct)
  case (6 xs)
  then obtain y where "y \<in> set xs" and "y \<noteq> Undefined" "y \<noteq> JNull" and "to_string y = Inl e"
    by (auto split: sum.splits dest!: first_error_Inl split: if_splits)
  with 6(1) show ?case
    by blast
qed (auto split: option.splits)

text \<open>The header is there exactly for a truthy token, which must convert.\<close>

lemma authorization_falsy: "\<not> truthy tok \<Longrightarrow> authorization tok = Inr []"
  by (simp add: authorization_def)

lemma authorization_truthy:
  "truthy tok \<Longrightarrow>
     authorization tok =
       (case to_string tok of Inl e \<Rightarrow> Inl e | Inr text \<Rightarrow> Inr [(''Authorization'', ''Bearer '' @ text)])"
  by (simp add: authorization_def)

lemma authorization_cases:
  assumes "authorization tok = Inr bearer"
  shows "bearer = [] \<or> (\<exists>text. bearer = [(''Authorization'', ''Bearer '' @ text)])"
  using assms by (auto simp: authorization_def split: if_splits sum.splits)

lemma config_Inl: "authorization tok = Inl e \<Longrightarrow> config tok opts path = Inl e"
  by (simp add: config_def)

lemma config_Inr:
  assumes "authorization tok = Inr bearer" and "opt_headers opts = None"
  shows "config tok opts path =
           Inr \<lparr>url = path, req_method = opt_method opts,
                req_headers = (''Content-Type'', ''application/json'') # bearer,
                req_body = opt_body opts\<rparr>"
  using authorization_cases [OF assms(1)] assms
  by (auto simp: config_def spread_def)

lemma config_request_with:
  assumes "authorization tok = Inr bearer" and "opt_headers opts = None"
  shows "config tok opts path = Inr (request_with bearer opts path)"
  using config_Inr [OF assms] by (simp add: request_with_def)

lemma requested_request_with:
  assumes "authorization tok = Inr bearer" and "opt_headers opts = None"
  shows "requested tok opts path = [request_with bearer opts path]"
  using config_request_with [OF assms] by (simp add: requested_def)

lemma reply_request_with:
  assumes "authorization tok = Inr bearer" and "opt_headers opts = None"
  shows "reply sv tok path opts h = settle (sv (h @ [request_with bearer opts path]))"
  using config_request_with [OF assms] by (simp add: reply_def)

lemma config_url: "config tok opts path = Inr c \<Longrightarrow> url c = path \<and> req_method c = opt_method opts"
  by (auto simp: config_def Let_def split: sum.splits)

lemma requested_Inr: "config tok opts path = Inr c \<Longrightarrow> requested tok opts path = [c]"
  by (simp add: requested_def)

lemma requested_Inl: "config tok opts path = Inl e \<Longrightarrow> requested tok opts path = []"
  by (simp add: requested_def)

lemma requested_falsy:
  assumes "\<not> truthy tok" and "opt_headers opts = None"
  shows "requested tok opts path =
           [\<lparr>url = path, req_method = opt_method opts,
             req_headers = [(''Content-Type'', ''application/json'')], req_body = opt_body opts\<rparr>]"
  using config_Inr [OF authorization_falsy [OF assms(1)] assms(2)]
  by (simp add: requested_def)

lemma requested_truthy:
  assumes "truthy tok" and "to_string tok = Inr text" and "opt_headers opts = None"
  shows "requested tok opts path =
           [\<lparr>url = path, req_method = opt_method opts,
             req_headers = [(''Content-Type'', ''application/json''), (''Authorization'', ''Bearer '' @ text)],
             req_body = opt_body opts\<rparr>]"
proof -
  from assms(1,2) have "authorization tok = Inr [(''Authorization'', ''Bearer '' @ text)]"
    by (simp add: authorization_def)
  from config_Inr [OF this assms(3)] show ?thesis
    by (simp add: requested_def)
qed

lemma opt_headers_GET [simp]: "opt_headers GET = None" "opt_method GET = None" "opt_body GET = None"
  by (simp_all add: GET_def)

lemma opt_headers_POST [simp]:
  "opt_headers (POST data) = None" "opt_method (POST data) = Some ''POST''"
  "opt_body (POST data) = Some (JSON_stringify data)"
  by (simp_all add: POST_def)

text \<open>A state whose token converts makes a request at every call of the gateway.\<close>

lemma requested_converts:
  assumes "token_converts s" and "opt_headers opts = None"
  shows "\<exists>bearer. authorization (token s) = Inr bearer
           \<and> requested (token s) opts path =
               [\<lparr>url = path, req_method = opt_method opts,
                 req_headers = (''Content-Type'', ''application/json'') # bearer,
                 req_body = opt_body opts\<rparr>]"
proof -
  from assms(1) obtain bearer where "authorization (token s) = Inr bearer"
    by (auto simp: token_converts_def split: sum.splits)
  with config_Inr [OF this assms(2)] show ?thesis
    by (simp add: requested_def)
qed

text \<open>One call of the gateway: what it gives, and the only change that it makes.\<close>

lemma apiRequest_eq:
  "apiRequest sv tok path opts s =
     (reply sv tok path opts (requests s), s\<lparr>requests := requests s @ requested tok opts path\<rparr>)"
  by (simp add: apiRequest_def reply_def requested_def Let_def split: sum.splits)

lemma fst_apiRequest: "fst (apiRequest sv tok path opts s) = reply sv tok path opts (requests s)"
  by (simp add: apiRequest_eq)

lemma reply_Inr:
  assumes "reply sv tok path opts h = Inr v"
  shows "\<exists>c. config tok opts path = Inr c \<and> sv (h @ [c]) = Response True (Inr v)"
  using assms by (auto simp: reply_def settle_Inr_iff split: sum.splits)

lemma reply_served: "reply sv tok path opts h = Inr v \<Longrightarrow> \<exists>h'. sv h' = Response True (Inr v)"
  using reply_Inr by blast

lemma reply_converts: "reply sv tok path opts h = Inr v \<Longrightarrow> \<exists>bearer. authorization tok = Inr bearer"
  by (auto simp: reply_def config_def split: sum.splits)

lemma reply_requested:
  "reply sv tok path opts h =
     (case requested tok opts path of
        [] \<Rightarrow> (case config tok opts path of Inl e \<Rightarrow> Inl e | Inr c \<Rightarrow> settle (sv (h @ [c])))
      | c # cs \<Rightarrow> settle (sv (h @ [c])))"
  by (simp add: reply_def requested_def split: sum.splits)

lemma truthy_get_prop: "truthy x \<Longrightarrow> \<exists>y. get_prop x p = Inr y"
  by (cases x) simp_all

lemma console_error_eq: "console_error label e s = s\<lparr>console := console s @ [(label, e)]\<rparr>"
  by (simp add: console_error_def)

section \<open>The fetching functions, step by step\<close>

lemma fetchUser_eq:
  "fetchUser sv tok s =
     (case reply sv tok ''/api/me'' GET (requests s) of
        Inr u \<Rightarrow> s\<lparr>requests := requests s @ requested tok GET ''/api/me'', user := u\<rparr>
      | Inl e \<Rightarrow> s\<lparr>requests := requests s @ requested tok GET ''/api/me'',
                    console := console s @ [(''Failed to fetch user:'', e)],
                    localStorage := (localStorage s)(''token'' := None), token := JNull\<rparr>)"
  by (simp add: fetchUser_def apiRequest_eq console_error_def Let_def split: sum.splits)

lemma fetchQuestions_eq:
  "fetchQuestions sv tok s =
     (case reply sv tok ''/api/questions'' GET (requests s) of
        Inr q \<Rightarrow> s\<lparr>requests := requests s @ requested tok GET ''/api/questions'', questions := q\<rparr>
      | Inl e \<Rightarrow> s\<lparr>requests := requests s @ requested tok GET ''/api/questions'',
                    console := console s @ [(''Failed to fetch questions:'', e)]\<rparr>)"
  by (simp add: fetchQuestions_def apiRequest_eq console_error_def Let_def split: sum.splits)

lemma requests_fetchQuestions:
  "requests (fetchQuestions sv tok s) = requests s @ requested tok GET ''/api/questions''"
  by (simp add: fetchQuestions_eq split: sum.splits)

lemma requests_fetchQuestion:
  "requests (fetchQuestion sv tok questionId s) = requests s @ question_requests tok questionId"
  by (simp add: fetchQuestion_def question_requests_def apiRequest_eq console_error_def Let_def
        split: sum.splits)

text \<open>
  What a re-fetch may change: the three mirrored collections, each to a body that the
  backend returned, besides the list of requests and the console.
\<close>

lemma fetchQuestions_frame:
  "\<exists>q l. fetchQuestions sv tok s =
            s\<lparr>questions := q, requests := requests s @ requested tok GET ''/api/questions'',
              console := console s @ l\<rparr>
         \<and> (q = questions s \<or> (\<exists>h. sv h = Response True (Inr q)))"
proof (cases "reply sv tok ''/api/questions'' GET (requests s)")
  case (Inl e)
  then have "fetchQuestions sv tok s =
      s\<lparr>questions := questions s, requests := requests s @ requested tok GET ''/api/questions'',
        console := console s @ [(''Failed to fetch questions:'', e)]\<rparr>"
    by (simp add: fetchQuestions_eq)
  then show ?thesis by blast
next
  case (Inr q)
  then have "fetchQuestions sv tok s =
      s\<lparr>questions := q, requests := requests s @ requested tok GET ''/api/questions'',
        console := console s @ []\<rparr>"
    by (simp add: fetchQuestions_eq)
  moreover from Inr have "\<exists>h. sv h = Response True (Inr q)"
    by (rule reply_served)
  ultimately show ?thesis by blast
qed

lemma fetchQuestion_frame:
  "\<exists>c a l. fetchQuestion sv tok questionId s =
            s\<lparr>currentQuestion := c, answers := a,
              requests := requests s @ question_requests tok questionId,
              console := console s @ l\<rparr>
         \<and> ((c = currentQuestion s \<and> a = answers s)
            \<or> ((\<exists>h. sv h = Response True (Inr c)) \<and> (\<exists>h. sv h = Response True (Inr a))))"
proof (cases "to_string questionId")
  case (Inl e)
  then have "fetchQuestion sv tok questionId s =
      s\<lparr>currentQuestion := currentQuestion s, answers := answers s,
        requests := requests s @ question_requests tok questionId,
        console := console s @ [(''Failed to fetch question details:'', e)]\<rparr>"
    by (simp add: fetchQuestion_def question_requests_def console_error_def)
  then show ?thesis by blast
next
  case (Inr qid)
  define p1 where "p1 = ''/api/questions/'' @ qid"
  define p2 where "p2 = ''/api/questions/'' @ qid @ ''/answers''"
  define h1 where "h1 = requests s @ requested tok GET p1"
  define rs where "rs = requests s @ question_requests tok questionId"
  have rs: "rs = (requests s @ requested tok GET p1) @ requested tok GET p2"
    by (simp add: rs_def question_requests_def Inr p1_def p2_def)
  have run: "fetchQuestion sv tok questionId s =
      (case reply sv tok p1 GET (requests s) of
         Inl e1 \<Rightarrow>
           (case reply sv tok p2 GET h1 of
              Inl e2 \<Rightarrow> s\<lparr>requests := rs,
                            console := console s @ [(''Failed to fetch question details:'',
                                                    if second_fails_first s rs then e2 else e1)]\<rparr>
            | Inr a \<Rightarrow> s\<lparr>requests := rs, console := console s @ [(''Failed to fetch question details:'', e1)]\<rparr>)
       | Inr c \<Rightarrow>
           (case reply sv tok p2 GET h1 of
              Inl e2 \<Rightarrow> s\<lparr>requests := rs, console := console s @ [(''Failed to fetch question details:'', e2)]\<rparr>
            | Inr a \<Rightarrow> s\<lparr>requests := rs, currentQuestion := c, answers := a\<rparr>))"
    unfolding rs h1_def
    by (simp add: fetchQuestion_def Inr apiRequest_eq console_error_def p1_def p2_def split: sum.splits)
  let ?kept = "\<lambda>e. s\<lparr>currentQuestion := currentQuestion s, answers := answers s,
                     requests := rs, console := console s @ [(''Failed to fetch question details:'', e)]\<rparr>"
  show ?thesis
  proof (cases "reply sv tok p1 GET (requests s)")
    case failed1: (Inl e1)
    show ?thesis
    proof (cases "reply sv tok p2 GET h1")
      case (Inl e2)
      with failed1 have "fetchQuestion sv tok questionId s = ?kept (if second_fails_first s rs then e2 else e1)"
        by (simp add: run)
      then show ?thesis unfolding rs_def by blast
    next
      case (Inr a)
      with failed1 have "fetchQuestion sv tok questionId s = ?kept e1"
        by (simp add: run)
      then show ?thesis unfolding rs_def by blast
    qed
  next
    case c: (Inr c)
    show ?thesis
    proof (cases "reply sv tok p2 GET h1")
      case (Inl e2)
      with c have "fetchQuestion sv tok questionId s = ?kept e2"
        by (simp add: run)
      then show ?thesis unfolding rs_def by blast
    next
      case a: (Inr a)
      with c have "fetchQuestion sv tok questionId s =
          s\<lparr>currentQuestion := c, answers := a, requests := rs, console := console s @ []\<rparr>"
        by (simp add: run)
      moreover from c a have "(\<exists>h. sv h = Response True (Inr c)) \<and> (\<exists>h. sv h = Response True (Inr a))"
        by (blast dest: reply_served)
      ultimately show ?thesis unfolding rs_def by blast
    qed
  qed
qed

text \<open>
  An id that does not convert: \<^verbatim>\<open>fetchQuestion\<close> logs the TypeError of its template
  literal and makes no request.
\<close>

lemma fetchQuestion_throws:
  assumes "to_string questionId = Inl e"
  shows "fetchQuestion sv tok questionId s =
           s\<lparr>console := console s @ [(''Failed to fetch question details:'', e)]\<rparr>"
    and "question_requests tok questionId = []"
  using assms by (simp_all add: fetchQuestion_def question_requests_def console_error_def)

lemma fetchQuestion_throws_example:
  "fetchQuestion sv tok (JObj [(''toString'', JNum ''1'')]) s =
     s\<lparr>console := console s @ [(''Failed to fetch question details:'',
                                   TypeError ''Cannot convert object to primitive value'')]\<rparr>"
  by (simp add: fetchQuestion_def console_error_def)

text \<open>A number as id stands in the paths as \<^verbatim>\<open>String\<close> writes it.\<close>

lemma question_requests_number:
  "question_requests JNull (JNum ''1e+21'') =
     [request_with [] GET ''/api/questions/1e+21'', request_with [] GET ''/api/questions/1e+21/answers'']"
  by (simp add: question_requests_def requested_request_with [OF authorization_falsy])


section \<open>The token of a session\<close>

text \<open>
  A handler runs with the token of a render. The first render has the text that local
  storage holds, or null; the handlers leave the token alone, except \<^verbatim>\<open>handleAuth\<close>
  and \<^verbatim>\<open>logout\<close>; and a token that does not convert does not outlive the effect that
  follows \<^verbatim>\<open>handleAuth\<close>, whose \<^verbatim>\<open>fetchUser\<close> fails on it and sets the token to null.
\<close>

lemma token_converts_init: "token_converts (init_state v ls)"
  by (simp add: token_converts_def init_state_def authorization_def split: option.splits)

lemma token_converts_logout: "token_converts (logout s)"
  by (simp add: token_converts_def logout_def Let_def authorization_def)

lemma token_fetchQuestions: "token (fetchQuestions sv tok s) = token s"
  by (simp add: fetchQuestions_eq split: sum.splits)

lemma token_fetchQuestion: "token (fetchQuestion sv tok questionId s) = token s"
proof -
  obtain c a l where "fetchQuestion sv tok questionId s =
            s\<lparr>currentQuestion := c, answers := a,
              requests := requests s @ question_requests tok questionId,
              console := console s @ l\<rparr>"
    using fetchQuestion_frame [of sv tok questionId s] by blast
  then show ?thesis
    by simp
qed

lemma token_fetchUser:
  "token (fetchUser sv tok s) =
     (case reply sv tok ''/api/me'' GET (requests s) of Inl e \<Rightarrow> JNull | Inr u \<Rightarrow> token s)"
  by (simp add: fetchUser_eq split: sum.splits)

lemma token_converts_effect:
  "token_converts (token_effect sv s)"
proof (cases "truthy (token s)")
  case False
  then show ?thesis
    by (simp add: token_effect_def token_fetchQuestions token_converts_def authorization_falsy)
next
  case True
  show ?thesis
  proof (cases "reply sv (token s) ''/api/me'' GET (requests s)")
    case (Inl e)
    with True show ?thesis
      by (simp add: token_effect_def token_fetchQuestions token_fetchUser token_converts_def
            authorization_def)
  next
    case (Inr u)
    from reply_converts [OF Inr] obtain bearer where "authorization (token s) = Inr bearer"
      by blast
    with True Inr show ?thesis
      by (simp add: token_effect_def token_fetchQuestions token_fetchUser token_converts_def)
  qed
qed

lemma token_converts_rerender:
  assumes "token_converts s \<or> token s \<noteq> old"
  shows "token_converts (rerender sv old s)"
  using assms by (auto simp: rerender_def Let_def token_converts_effect)

lemma token_handleCreateQuestion: "token (handleCreateQuestion v sv s) = token s"
  by (simp add: handleCreateQuestion_def apiRequest_eq alert_def token_fetchQuestions Let_def
        split: sum.splits)

lemma token_factCheck: "token (factCheck sv tok answer s0 s) = token s"
  by (simp add: factCheck_def apiRequest_eq console_error_def split: sum.splits)

lemma token_handleCreateAnswer: "token (handleCreateAnswer v sv s) = token s"
  by (cases v)
     (simp_all add: handleCreateAnswer_def apiRequest_eq alert_def token_fetchQuestion token_factCheck
        Let_def split: sum.splits)

lemma token_handleVote: "token (handleVote sv targetId targetType vote s) = token s"
  by (simp add: handleVote_def apiRequest_eq console_error_def token_fetchQuestions token_fetchQuestion
        split: sum.splits)

lemma token_handleChatMessage: "token (handleChatMessage v sv s) = token s"
  by (simp add: handleChatMessage_def apiRequest_eq console_error_def Let_def split: sum.splits)

lemma token_handleSearch: "token (handleSearch sv s) = token s"
  by (simp add: handleSearch_def apiRequest_eq console_error_def token_fetchQuestions
        split: sum.splits)

lemma token_converts_handleAuth:
  assumes "token_converts s"
  shows "token_converts (rerender sv (token s) (handleAuth v sv s))"
proof (cases "token (handleAuth v sv s) = token s")
  case True
  with assms have "token_converts (handleAuth v sv s)"
    by (simp add: token_converts_def)
  then show ?thesis
    by (simp add: token_converts_rerender)
next
  case False
  then show ?thesis
    by (simp add: token_converts_rerender)
qed

section \<open>The claims of the specification\<close>

text \<open>
  C1: with a token, the first request of \<^verbatim>\<open>handleCreateQuestion\<close> is the POST of
  \<^verbatim>\<open>/api/questions\<close>. Its \<^verbatim>\<open>tags\<close> are the pieces of the tags field between the
  commas, each trimmed, the empty ones dropped; the themed component appends the
  category as one more tag, the generic one appends nothing. No other request follows
  but the re-fetch of the list after a success. The request is made whenever the
  token converts to the text of its header, as every token that the component sets
  from a text does.
\<close>

theorem created_question_tags:
  assumes "truthy (token s)"
  shows "get_prop (question_body v (questionData s)) ''tags'' =
          Inr (JArr (map JStr
                 (filter (\<lambda>piece. piece \<noteq> []) (map trim (split CHR '','' (q_tags (questionData s))))
                  @ (case v of Themed \<Rightarrow> [q_category (questionData s)] | Generic \<Rightarrow> []))))
     \<and> (\<exists>rest.
          sent (handleCreateQuestion v sv) s =
            requested (token s) (POST (question_body v (questionData s))) ''/api/questions'' @ rest
          \<and> (rest = [] \<or> rest = requested (token s) GET ''/api/questions''))
     \<and> (\<forall>bearer. to_string (token s) = Inr bearer \<longrightarrow>
          (\<exists>body rest.
             sent (handleCreateQuestion v sv) s =
               \<lparr>url = ''/api/questions'', req_method = Some ''POST'',
                req_headers = [(''Content-Type'', ''application/json''),
                               (''Authorization'', ''Bearer '' @ bearer)],
                req_body = Some body\<rparr> # rest
             \<and> body = question_body v (questionData s)
             \<and> get_prop body ''tags'' =
                 Inr (JArr (map JStr
                        (filter (\<lambda>piece. piece \<noteq> []) (map trim (split CHR '','' (q_tags (questionData s))))
                         @ (case v of Themed \<Rightarrow> [q_category (questionData s)] | Generic \<Rightarrow> []))))
             \<and> (rest = [] \<or> rest = requested (token s) GET ''/api/questions'')))"
proof -
  let ?body = "question_body v (questionData s)"
  let ?post = "requested (token s) (POST ?body) ''/api/questions''"
  have body: "JSON_stringify ?body = ?body"
    by (cases v) (simp_all add: question_body_def Let_def comp_def)
  have tags: "get_prop ?body ''tags'' =
          Inr (JArr (map JStr
                 (filter (\<lambda>piece. piece \<noteq> []) (map trim (split CHR '','' (q_tags (questionData s))))
                  @ (case v of Themed \<Rightarrow> [q_category (questionData s)] | Generic \<Rightarrow> []))))"
    by (cases v) (simp_all add: question_body_def parse_tags_def Let_def)
  have "sent (handleCreateQuestion v sv) s = ?post @ []
        \<or> sent (handleCreateQuestion v sv) s = ?post @ requested (token s) GET ''/api/questions''"
    using assms
    by (simp add: sent_def handleCreateQuestion_def apiRequest_eq alert_def requests_fetchQuestions
          Let_def split: sum.splits)
  then have made: "\<exists>rest. sent (handleCreateQuestion v sv) s = ?post @ rest
          \<and> (rest = [] \<or> rest = requested (token s) GET ''/api/questions'')"
    by blast
  have "\<exists>body rest.
             sent (handleCreateQuestion v sv) s =
               \<lparr>url = ''/api/questions'', req_method = Some ''POST'',
                req_headers = [(''Content-Type'', ''application/json''),
                               (''Authorization'', ''Bearer '' @ bearer)],
                req_body = Some body\<rparr> # rest
             \<and> body = ?body
             \<and> get_prop body ''tags'' =
                 Inr (JArr (map JStr
                        (filter (\<lambda>piece. piece \<noteq> []) (map trim (split CHR '','' (q_tags (questionData s))))
                         @ (case v of Themed \<Rightarrow> [q_category (questionData s)] | Generic \<Rightarrow> []))))
             \<and> (rest = [] \<or> rest = requested (token s) GET ''/api/questions'')"
    if "to_string (token s) = Inr bearer" for bearer
  proof -
    from requested_truthy [OF assms that, of "POST ?body" "''/api/questions''"]
    have "?post = [\<lparr>url = ''/api/questions'', req_method = Some ''POST'',
                req_headers = [(''Content-Type'', ''application/json''),
                               (''Authorization'', ''Bearer '' @ bearer)],
                req_body = Some ?body\<rparr>]"
      by (simp add: body)
    with made tags show ?thesis
      by auto
  qed
  with tags made show ?thesis
    by blast
qed

theorem created_question_tags_witness:
  "truthy (token demo_state)
   \<and> to_string (token demo_state) = Inr ''tok1''
   \<and> q_tags (questionData demo_state) = ''a, b''
   \<and> q_category (questionData demo_state) = ''employment''
   \<and> (\<exists>body rest.
        sent (handleCreateQuestion Themed demo_server) demo_state =
          \<lparr>url = ''/api/questions'', req_method = Some ''POST'',
           req_headers = [(''Content-Type'', ''application/json''), (''Authorization'', ''Bearer tok1'')],
           req_body = Some body\<rparr> # rest
        \<and> get_prop body ''tags'' = Inr (JArr [JStr ''a'', JStr ''b'', JStr ''employment'']))
   \<and> (\<exists>body rest.
        sent (handleCreateQuestion Generic demo_server) demo_state =
          \<lparr>url = ''/api/questions'', req_method = Some ''POST'',
           req_headers = [(''Content-Type'', ''application/json''), (''Authorization'', ''Bearer tok1'')],
           req_body = Some body\<rparr> # rest
        \<and> get_prop body ''tags'' = Inr (JArr [JStr ''a'', JStr ''b'']))"
proof -
  have st: "token demo_state = JStr ''tok1''" "q_tags (questionData demo_state) = ''a, b''"
    "q_category (questionData demo_state) = ''employment''"
    by (simp_all add: demo_state_def init_state_def)
  have tok: "truthy (token demo_state)" and bearer: "to_string (token demo_state) = Inr ''tok1''"
    by (simp_all add: st)
  have pieces: "filter (\<lambda>piece. piece \<noteq> []) (map trim (split CHR '','' ''a, b'')) = [''a'', ''b'']"
    by code_simp
  from created_question_tags [OF tok, where v = Themed and sv = demo_server] bearer
  have "\<exists>body rest.
        sent (handleCreateQuestion Themed demo_server) demo_state =
          \<lparr>url = ''/api/questions'', req_method = Some ''POST'',
           req_headers = [(''Content-Type'', ''application/json''), (''Authorization'', ''Bearer '' @ ''tok1'')],
           req_body = Some body\<rparr> # rest
        \<and> get_prop body ''tags'' =
                 Inr (JArr (map JStr
                        (filter (\<lambda>piece. piece \<noteq> []) (map trim (split CHR '','' (q_tags (questionData demo_state))))
                         @ (case Themed of Themed \<Rightarrow> [q_category (questionData demo_state)] | Generic \<Rightarrow> []))))"
    by blast
  then have themed: "\<exists>body rest.
        sent (handleCreateQuestion Themed demo_server) demo_state =
          \<lparr>url = ''/api/questions'', req_method = Some ''POST'',
           req_headers = [(''Content-Type'', ''application/json''), (''Authorization'', ''Bearer tok1'')],
           req_body = Some body\<rparr> # rest
        \<and> get_prop body ''tags'' = Inr (JArr [JStr ''a'', JStr ''b'', JStr ''employment''])"
    unfolding st pieces by simp
  from created_question_tags [OF tok, where v = Generic and sv = demo_server] bearer
  have "\<exists>body rest.
        sent (handleCreateQuestion Generic demo_server) demo_state =
          \<lparr>url = ''/api/questions'', req_method = Some ''POST'',
           req_headers = [(''Content-Type'', ''application/json''), (''Authorization'', ''Bearer '' @ ''tok1'')],
           req_body = Some body\<rparr> # rest
        \<and> get_prop body ''tags'' =
                 Inr (JArr (map JStr
                        (filter (\<lambda>piece. piece \<noteq> []) (map trim (split CHR '','' (q_tags (questionData demo_state))))
                         @ (case Generic of Themed \<Rightarrow> [q_category (questionData demo_state)] | Generic \<Rightarrow> []))))"
    by blast
  then have generic: "\<exists>body rest.
        sent (handleCreateQuestion Generic demo_server) demo_state =
          \<lparr>url = ''/api/questions'', req_method = Some ''POST'',
           req_headers = [(''Content-Type'', ''application/json''), (''Authorization'', ''Bearer tok1'')],
           req_body = Some body\<rparr> # rest
        \<and> get_prop body ''tags'' = Inr (JArr [JStr ''a'', JStr ''b''])"
    unfolding st pieces by simp
  from tok bearer st themed generic show ?thesis
    by blast
qed

text \<open>
  C2, at the input where the gateway departs from it. A response that is not ok and
  whose body is the JSON text \<^verbatim>\<open>null\<close> parses, so the fallback object is not used;
  \<^verbatim>\<open>error.detail\<close> then reads a property of \<^verbatim>\<open>null\<close>. What \<^verbatim>\<open>apiRequest\<close> throws is
  that TypeError whenever the request is made, not an Error with the message
  'Request failed'; and it throws no such Error either when the token does not
  convert and no request is made. This is so whatever the path, the options and the
  token.
\<close>

theorem apiRequest_null_payload:
  "fst (apiRequest (\<lambda>h. Response False (Inr JNull)) tok path opts s)
     = (case config tok opts path of
          Inl e \<Rightarrow> Inl e
        | Inr c \<Rightarrow> Inl (TypeError ''Cannot read properties of null (reading 'detail')''))
   \<and> fst (apiRequest (\<lambda>h. Response False (Inr JNull)) tok path opts s) \<noteq> Inl (Error ''Request failed'')
   \<and> fst (apiRequest (\<lambda>h. Response False (Inr JNull)) JNull path opts s)
       = Inl (TypeError ''Cannot read properties of null (reading 'detail')'')
   \<and> fst (apiRequest (\<lambda>h. Response False (Inr JNull)) (JStr text) path opts s)
       = Inl (TypeError ''Cannot read properties of null (reading 'detail')'')"
proof -
  let ?null = "\<lambda>h. Response False (Inr JNull)"
  have run: "fst (apiRequest ?null tok path opts s)
     = (case config tok opts path of
          Inl e \<Rightarrow> Inl e
        | Inr c \<Rightarrow> Inl (TypeError ''Cannot read properties of null (reading 'detail')''))" for tok
    by (simp add: fst_apiRequest reply_def settle_null cannot_read_def split: sum.splits)
  have "fst (apiRequest ?null tok path opts s) \<noteq> Inl (Error ''Request failed'')"
  proof (cases "config tok opts path")
    case (Inl e)
    then have "to_string tok = Inl e"
      by (auto simp: config_def authorization_def split: if_splits sum.splits)
    then have "e = TypeError ''Cannot convert object to primitive value''"
      by (rule to_string_error)
    with Inl show ?thesis
      by (simp add: run)
  next
    case (Inr c)
    then show ?thesis
      by (simp add: run)
  qed
  moreover have "\<exists>c. config JNull opts path = Inr c" "\<exists>c. config (JStr text) opts path = Inr c"
    by (simp_all add: config_def authorization_def Let_def)
  ultimately show ?thesis
    using run by (auto simp del: truthy.simps)
qed

text \<open>
  C3: when the vote request succeeds, \<^verbatim>\<open>handleVote\<close> calls \<^verbatim>\<open>fetchQuestion\<close> once
  with the id of the open question, when a question is open, and then
  \<^verbatim>\<open>fetchQuestions\<close> once. For an id that converts to a text the requests are, after
  the vote, the two of \<^verbatim>\<open>fetchQuestion\<close> (the question, then its answers) and the one
  of \<^verbatim>\<open>fetchQuestions\<close>. None of these mentions the direction of the vote, which
  stands in the body of the vote request only. Nothing is computed locally: apart from
  the requests and the console, only \<open>questions\<close>, \<open>currentQuestion\<close> and \<open>answers\<close>
  can differ afterwards, and each either keeps its value or holds the body of an ok
  response of the backend.
\<close>

theorem vote_refetches:
  assumes tok: "truthy (token s)"
    and uid: "get_prop (user s) ''id'' = Inr user_id"
    and ok: "fst (apiRequest sv (token s) ''/api/vote''
                   (POST (vote_body user_id targetId targetType vote)) s) = Inr r"
  shows "\<exists>bearer. authorization (token s) = Inr bearer
         \<and> (if truthy (currentQuestion s)
            then \<exists>questionId. get_prop (currentQuestion s) ''id'' = Inr questionId
                 \<and> handleVote sv targetId targetType vote s =
                     fetchQuestions sv (token s)
                       (fetchQuestion sv (token s) questionId
                          (s\<lparr>requests := requests s
                                @ [request_with bearer (POST (vote_body user_id targetId targetType vote)) ''/api/vote'']\<rparr>))
                 \<and> (\<forall>qid. to_string questionId = Inr qid \<longrightarrow>
                       sent (handleVote sv targetId targetType vote) s =
                         [request_with bearer (POST (vote_body user_id targetId targetType vote)) ''/api/vote'',
                          request_with bearer GET (''/api/questions/'' @ qid),
                          request_with bearer GET (''/api/questions/'' @ qid @ ''/answers''),
                          request_with bearer GET ''/api/questions''])
            else handleVote sv targetId targetType vote s =
                   fetchQuestions sv (token s)
                     (s\<lparr>requests := requests s
                          @ [request_with bearer (POST (vote_body user_id targetId targetType vote)) ''/api/vote'']\<rparr>)
                 \<and> sent (handleVote sv targetId targetType vote) s =
                     [request_with bearer (POST (vote_body user_id targetId targetType vote)) ''/api/vote'',
                      request_with bearer GET ''/api/questions''])
         \<and> (\<exists>q c a rs l.
               handleVote sv targetId targetType vote s =
                 s\<lparr>questions := q, currentQuestion := c, answers := a, requests := rs, console := l\<rparr>
               \<and> (q = questions s \<or> (\<exists>h. sv h = Response True (Inr q)))
               \<and> ((c = currentQuestion s \<and> a = answers s)
                  \<or> ((\<exists>h. sv h = Response True (Inr c)) \<and> (\<exists>h. sv h = Response True (Inr a)))))"
proof -
  from ok have voted: "reply sv (token s) ''/api/vote'' (POST (vote_body user_id targetId targetType vote)) (requests s) = Inr r"
    by (simp add: fst_apiRequest)
  then obtain bearer where bearer: "authorization (token s) = Inr bearer"
    using reply_converts by blast
  define vote_request where
    "vote_request = request_with bearer (POST (vote_body user_id targetId targetType vote)) ''/api/vote''"
  define get where "get = request_with bearer GET"
  define s1 where "s1 = s\<lparr>requests := requests s @ [vote_request]\<rparr>"
  have post: "requested (token s) (POST (vote_body user_id targetId targetType vote)) ''/api/vote'' = [vote_request]"
    unfolding vote_request_def by (rule requested_request_with [OF bearer]) simp
  have gets: "requested (token s) GET path = [get path]" for path
    unfolding get_def by (rule requested_request_with [OF bearer]) simp
  have s1: "questions s1 = questions s" "currentQuestion s1 = currentQuestion s" "answers s1 = answers s"
    "requests s1 = requests s @ [vote_request]" "console s1 = console s"
    by (simp_all add: s1_def)
  have list: "\<exists>q l. fetchQuestions sv (token s) s' =
          s'\<lparr>questions := q, requests := requests s' @ [get ''/api/questions''], console := console s' @ l\<rparr>
          \<and> (q = questions s' \<or> (\<exists>h. sv h = Response True (Inr q)))" for s'
    using fetchQuestions_frame [of sv "token s" s'] by (simp add: gets)
  have frame_and_requests:
    "(if truthy (currentQuestion s)
            then \<exists>questionId. get_prop (currentQuestion s) ''id'' = Inr questionId
                 \<and> handleVote sv targetId targetType vote s =
                     fetchQuestions sv (token s) (fetchQuestion sv (token s) questionId s1)
                 \<and> (\<forall>qid. to_string questionId = Inr qid \<longrightarrow>
                       sent (handleVote sv targetId targetType vote) s =
                         [vote_request, get (''/api/questions/'' @ qid),
                          get (''/api/questions/'' @ qid @ ''/answers''), get ''/api/questions''])
            else handleVote sv targetId targetType vote s = fetchQuestions sv (token s) s1
                 \<and> sent (handleVote sv targetId targetType vote) s = [vote_request, get ''/api/questions''])
         \<and> (\<exists>q c a rs l.
               handleVote sv targetId targetType vote s =
                 s\<lparr>questions := q, currentQuestion := c, answers := a, requests := rs, console := l\<rparr>
               \<and> (q = questions s \<or> (\<exists>h. sv h = Response True (Inr q)))
               \<and> ((c = currentQuestion s \<and> a = answers s)
                  \<or> ((\<exists>h. sv h = Response True (Inr c)) \<and> (\<exists>h. sv h = Response True (Inr a)))))"
  proof (cases "truthy (currentQuestion s)")
    case False
    with tok uid voted have run: "handleVote sv targetId targetType vote s = fetchQuestions sv (token s) s1"
      by (simp add: handleVote_def apiRequest_eq post s1_def)
    have made: "sent (handleVote sv targetId targetType vote) s = [vote_request, get ''/api/questions'']"
      by (simp add: run sent_def requests_fetchQuestions gets s1)
    obtain q l where "fetchQuestions sv (token s) s1 =
          s1\<lparr>questions := q, requests := requests s1 @ [get ''/api/questions''], console := console s1 @ l\<rparr>"
      and "q = questions s1 \<or> (\<exists>h. sv h = Response True (Inr q))"
      using list [of s1] by blast
    then have "handleVote sv targetId targetType vote s =
                 s\<lparr>questions := q, currentQuestion := currentQuestion s, answers := answers s,
                   requests := requests s @ [vote_request, get ''/api/questions''],
                   console := console s @ l\<rparr>"
      and "q = questions s \<or> (\<exists>h. sv h = Response True (Inr q))"
      by (simp_all add: run s1_def)
    then have "\<exists>q c a rs l.
               handleVote sv targetId targetType vote s =
                 s\<lparr>questions := q, currentQuestion := c, answers := a, requests := rs, console := l\<rparr>
               \<and> (q = questions s \<or> (\<exists>h. sv h = Response True (Inr q)))
               \<and> ((c = currentQuestion s \<and> a = answers s)
                  \<or> ((\<exists>h. sv h = Response True (Inr c)) \<and> (\<exists>h. sv h = Response True (Inr a))))"
      by blast
    with run made show ?thesis
      using False by simp
  next
    case True
    then obtain questionId where questionId: "get_prop (currentQuestion s) ''id'' = Inr questionId"
      using truthy_get_prop by blast
    define s2 where "s2 = fetchQuestion sv (token s) questionId s1"
    from tok uid voted True questionId
    have run: "handleVote sv targetId targetType vote s = fetchQuestions sv (token s) s2"
      by (simp add: handleVote_def apiRequest_eq post s2_def s1_def)
    have made: "sent (handleVote sv targetId targetType vote) s =
            [vote_request, get (''/api/questions/'' @ qid),
             get (''/api/questions/'' @ qid @ ''/answers''), get ''/api/questions'']"
      if "to_string questionId = Inr qid" for qid
      using that
      by (simp add: run s2_def sent_def requests_fetchQuestions requests_fetchQuestion
            question_requests_def gets s1)
    obtain c a l1 where s2: "s2 =
          s1\<lparr>currentQuestion := c, answers := a,
              requests := requests s1 @ question_requests (token s) questionId,
              console := console s1 @ l1\<rparr>"
      and ca: "(c = currentQuestion s1 \<and> a = answers s1)
            \<or> ((\<exists>h. sv h = Response True (Inr c)) \<and> (\<exists>h. sv h = Response True (Inr a)))"
      unfolding s2_def using fetchQuestion_frame [of sv "token s" questionId s1] by blast
    obtain q l2 where s3: "fetchQuestions sv (token s) s2 =
          s2\<lparr>questions := q, requests := requests s2 @ [get ''/api/questions''],
              console := console s2 @ l2\<rparr>"
      and q: "q = questions s2 \<or> (\<exists>h. sv h = Response True (Inr q))"
      using list [of s2] by blast
    have "handleVote sv targetId targetType vote s =
                 s\<lparr>questions := q, currentQuestion := c, answers := a,
                   requests := requests s @ [vote_request] @ question_requests (token s) questionId
                                @ [get ''/api/questions''],
                   console := console s @ l1 @ l2\<rparr>"
      by (simp add: run s3) (simp add: s2 s1_def)
    moreover have "questions s2 = questions s"
      by (simp add: s2 s1)
    with q have "q = questions s \<or> (\<exists>h. sv h = Response True (Inr q))"
      by simp
    moreover from ca have "(c = currentQuestion s \<and> a = answers s)
            \<or> ((\<exists>h. sv h = Response True (Inr c)) \<and> (\<exists>h. sv h = Response True (Inr a)))"
      by (simp add: s1)
    ultimately have "\<exists>q c a rs l.
               handleVote sv targetId targetType vote s =
                 s\<lparr>questions := q, currentQuestion := c, answers := a, requests := rs, console := l\<rparr>
               \<and> (q = questions s \<or> (\<exists>h. sv h = Response True (Inr q)))
               \<and> ((c = currentQuestion s \<and> a = answers s)
                  \<or> ((\<exists>h. sv h = Response True (Inr c)) \<and> (\<exists>h. sv h = Response True (Inr a))))"
      by blast
    moreover from run have "handleVote sv targetId targetType vote s =
                     fetchQuestions sv (token s) (fetchQuestion sv (token s) questionId s1)"
      by (simp add: s2_def)
    ultimately show ?thesis
      using True questionId made by (simp only: if_True) blast
  qed
  with bearer show ?thesis
    unfolding s1_def vote_request_def get_def by blast
qed

theorem vote_refetches_witness:
  "truthy (token demo_state)
   \<and> get_prop (user demo_state) ''id'' = Inr (JStr ''u1'')
   \<and> truthy (currentQuestion demo_state)
   \<and> fst (apiRequest demo_server (token demo_state) ''/api/vote''
            (POST (vote_body (JStr ''u1'') (JStr ''q1'') (JStr ''question'') (JNum ''1''))) demo_state)
       = Inr (JObj [(''message'', JStr ''Vote recorded'')])
   \<and> fst (apiRequest demo_server (token demo_state) ''/api/vote''
            (POST (vote_body (JStr ''u1'') (JStr ''q1'') (JStr ''question'') (JNum ''-1''))) demo_state)
       = Inr (JObj [(''message'', JStr ''Vote recorded'')])
   \<and> sent (handleVote demo_server (JStr ''q1'') (JStr ''question'') (JNum ''1'')) demo_state
       = [request_with [(''Authorization'', ''Bearer tok1'')]
            (POST (vote_body (JStr ''u1'') (JStr ''q1'') (JStr ''question'') (JNum ''1''))) ''/api/vote'',
          request_with [(''Authorization'', ''Bearer tok1'')] GET ''/api/questions/q1'',
          request_with [(''Authorization'', ''Bearer tok1'')] GET ''/api/questions/q1/answers'',
          request_with [(''Authorization'', ''Bearer tok1'')] GET ''/api/questions'']
   \<and> sent (handleVote demo_server (JStr ''q1'') (JStr ''question'') (JNum ''-1'')) demo_state
       = [request_with [(''Authorization'', ''Bearer tok1'')]
            (POST (vote_body (JStr ''u1'') (JStr ''q1'') (JStr ''question'') (JNum ''-1''))) ''/api/vote'',
          request_with [(''Authorization'', ''Bearer tok1'')] GET ''/api/questions/q1'',
          request_with [(''Authorization'', ''Bearer tok1'')] GET ''/api/questions/q1/answers'',
          request_with [(''Authorization'', ''Bearer tok1'')] GET ''/api/questions'']"
proof -
  have st: "token demo_state = JStr ''tok1''" "user demo_state = user1"
    "currentQuestion demo_state = question1"
    by (simp_all add: demo_state_def init_state_def)
  have tok: "truthy (token demo_state)"
    by (simp add: st)
  have header: "authorization (token demo_state) = Inr [(''Authorization'', ''Bearer tok1'')]"
    by (simp add: st authorization_def)
  have uid: "get_prop (user demo_state) ''id'' = Inr (JStr ''u1'')"
    by (simp add: st user1_def)
  have questionId: "get_prop (currentQuestion demo_state) ''id'' = Inr (JStr ''q1'')"
    and open_question: "truthy (currentQuestion demo_state)"
    by (simp_all add: st question1_def)
  have ok: "fst (apiRequest demo_server (token demo_state) ''/api/vote''
                  (POST (vote_body (JStr ''u1'') (JStr ''q1'') (JStr ''question'') (JNum n))) demo_state)
              = Inr (JObj [(''message'', JStr ''Vote recorded'')])" for n
    by (simp add: fst_apiRequest reply_request_with [OF header] demo_server_def request_with_def settle_ok)
  have "sent (handleVote demo_server (JStr ''q1'') (JStr ''question'') (JNum n)) demo_state
       = [request_with [(''Authorization'', ''Bearer tok1'')]
            (POST (vote_body (JStr ''u1'') (JStr ''q1'') (JStr ''question'') (JNum n))) ''/api/vote'',
          request_with [(''Authorization'', ''Bearer tok1'')] GET ''/api/questions/q1'',
          request_with [(''Authorization'', ''Bearer tok1'')] GET ''/api/questions/q1/answers'',
          request_with [(''Authorization'', ''Bearer tok1'')] GET ''/api/questions'']" for n
  proof -
    from vote_refetches [OF tok uid ok, of n] open_question
    obtain bearer questionId' where "authorization (token demo_state) = Inr bearer"
      and "get_prop (currentQuestion demo_state) ''id'' = Inr questionId'"
      and "\<forall>qid. to_string questionId' = Inr qid \<longrightarrow>
                       sent (handleVote demo_server (JStr ''q1'') (JStr ''question'') (JNum n)) demo_state =
                         [request_with bearer (POST (vote_body (JStr ''u1'') (JStr ''q1'') (JStr ''question'') (JNum n))) ''/api/vote'',
                          request_with bearer GET (''/api/questions/'' @ qid),
                          request_with bearer GET (''/api/questions/'' @ qid @ ''/answers''),
                          request_with bearer GET ''/api/questions'']"
      by (simp only: if_True) blast
    with header questionId show ?thesis
      by simp
  qed
  with tok uid open_question ok show ?thesis
    by blast
qed

text \<open>
  C4: a failed vote request leaves the state as it was but for the request made and
  the line on the console; so does a vote that fails before any request because the
  user is not loaded. A failed fact-check request does the same inside
  \<^verbatim>\<open>handleCreateAnswer\<close>, which shows no alert for it and goes on to clear the answer
  field and re-fetch the question. A failed \<^verbatim>\<open>/api/me\<close> request logs the error,
  removes the key \<^verbatim>\<open>token\<close> from local storage and sets the token to null, after
  which the auth screen is rendered.
\<close>

theorem background_failures:
  "(truthy (token s) \<and> get_prop (user s) ''id'' = Inr user_id
      \<and> fst (apiRequest sv (token s) ''/api/vote''
               (POST (vote_body user_id targetId targetType vote)) s) = Inl e
    \<longrightarrow> handleVote sv targetId targetType vote s =
          s\<lparr>requests := requests s @ requested (token s) (POST (vote_body user_id targetId targetType vote)) ''/api/vote'',
            console := console s @ [(''Vote failed:'', e)]\<rparr>)
   \<and> (truthy (token s) \<and> get_prop (user s) ''id'' = Inl e
    \<longrightarrow> handleVote sv targetId targetType vote s = s\<lparr>console := console s @ [(''Vote failed:'', e)]\<rparr>)
   \<and> (get_prop answer ''id'' = Inr answer_id \<and> get_prop (currentQuestion s0) ''title'' = Inr title
      \<and> fst (apiRequest sv tok ''/api/fact-check-answer''
               (POST (JObj [(''answer_id'', answer_id), (''question_title'', title),
                            (''answer_content'', JStr (answerContent s0))])) s) = Inl e
    \<longrightarrow> factCheck sv tok answer s0 s =
          s\<lparr>requests := requests s @ requested tok
                (POST (JObj [(''answer_id'', answer_id), (''question_title'', title),
                             (''answer_content'', JStr (answerContent s0))])) ''/api/fact-check-answer'',
            console := console s @ [(''Fact-check failed:'', e)]\<rparr>)
   \<and> (truthy (token s) \<and> truthy (currentQuestion s) \<and> get_prop (currentQuestion s) ''id'' = Inr questionId
      \<and> to_string questionId = Inr qid
      \<and> fst (apiRequest sv (token s) (''/api/questions/'' @ qid @ ''/answers'')
               (POST (JObj [(''content'', JStr (answerContent s))])) (s\<lparr>loading := True\<rparr>)) = Inr answer
    \<longrightarrow> handleCreateAnswer Themed sv s =
          (fetchQuestion sv (token s) questionId
             ((factCheck sv (token s) answer s
                (s\<lparr>loading := True,
                   requests := requests s @ requested (token s) (POST (JObj [(''content'', JStr (answerContent s))]))
                                               (''/api/questions/'' @ qid @ ''/answers'')\<rparr>))
              \<lparr>answerContent := []\<rparr>))
          \<lparr>loading := False\<rparr>)
   \<and> (fst (apiRequest sv tok ''/api/me'' GET s) = Inl e
    \<longrightarrow> fetchUser sv tok s =
          s\<lparr>requests := requests s @ requested tok GET ''/api/me'',
            console := console s @ [(''Failed to fetch user:'', e)],
            localStorage := (localStorage s)(''token'' := None), token := JNull\<rparr>
        \<and> localStorage (fetchUser sv tok s) ''token'' = None
        \<and> render (fetchUser sv tok s) = AuthScreen)"
proof -
  have vote: "handleVote sv targetId targetType vote s =
          s\<lparr>requests := requests s @ requested (token s) (POST (vote_body user_id targetId targetType vote)) ''/api/vote'',
            console := console s @ [(''Vote failed:'', e)]\<rparr>"
    if "truthy (token s)" "get_prop (user s) ''id'' = Inr user_id"
      "fst (apiRequest sv (token s) ''/api/vote'' (POST (vote_body user_id targetId targetType vote)) s) = Inl e"
    using that by (simp add: handleVote_def apiRequest_eq console_error_def)
  have no_user: "handleVote sv targetId targetType vote s = s\<lparr>console := console s @ [(''Vote failed:'', e)]\<rparr>"
    if "truthy (token s)" "get_prop (user s) ''id'' = Inl e"
    using that by (simp add: handleVote_def console_error_def)
  have fact: "factCheck sv tok answer s0 s =
          s\<lparr>requests := requests s @ requested tok
                (POST (JObj [(''answer_id'', answer_id), (''question_title'', title),
                             (''answer_content'', JStr (answerContent s0))])) ''/api/fact-check-answer'',
            console := console s @ [(''Fact-check failed:'', e)]\<rparr>"
    if "get_prop answer ''id'' = Inr answer_id" "get_prop (currentQuestion s0) ''title'' = Inr title"
      "fst (apiRequest sv tok ''/api/fact-check-answer''
               (POST (JObj [(''answer_id'', answer_id), (''question_title'', title),
                            (''answer_content'', JStr (answerContent s0))])) s) = Inl e"
    using that by (simp add: factCheck_def apiRequest_eq console_error_def)
  have answer: "handleCreateAnswer Themed sv s =
          (fetchQuestion sv (token s) questionId
             ((factCheck sv (token s) answer s
                (s\<lparr>loading := True,
                   requests := requests s @ requested (token s) (POST (JObj [(''content'', JStr (answerContent s))]))
                                               (''/api/questions/'' @ qid @ ''/answers'')\<rparr>))
              \<lparr>answerContent := []\<rparr>))
          \<lparr>loading := False\<rparr>"
    if "truthy (token s)" "truthy (currentQuestion s)" "get_prop (currentQuestion s) ''id'' = Inr questionId"
      "to_string questionId = Inr qid"
      "fst (apiRequest sv (token s) (''/api/questions/'' @ qid @ ''/answers'')
               (POST (JObj [(''content'', JStr (answerContent s))])) (s\<lparr>loading := True\<rparr>)) = Inr answer"
    using that by (simp add: handleCreateAnswer_def apiRequest_eq Let_def)
  have me: "fetchUser sv tok s =
          s\<lparr>requests := requests s @ requested tok GET ''/api/me'',
            console := console s @ [(''Failed to fetch user:'', e)],
            localStorage := (localStorage s)(''token'' := None), token := JNull\<rparr>"
    if "fst (apiRequest sv tok ''/api/me'' GET s) = Inl e"
    using that by (simp add: fetchUser_eq fst_apiRequest)
  have shown: "localStorage (fetchUser sv tok s) ''token'' = None \<and> render (fetchUser sv tok s) = AuthScreen"
    if "fst (apiRequest sv tok ''/api/me'' GET s) = Inl e"
    by (simp add: me [OF that] render_def)
  from vote no_user fact answer me shown show ?thesis
    by blast
qed

theorem background_failures_witness:
  "truthy (token demo_state) \<and> get_prop (user demo_state) ''id'' = Inr (JStr ''u1'')
   \<and> handleVote failing_server (JStr ''a1'') (JStr ''answer'') (JNum ''1'') demo_state =
       demo_state\<lparr>requests := [request_with [(''Authorization'', ''Bearer tok1'')]
                      (POST (vote_body (JStr ''u1'') (JStr ''a1'') (JStr ''answer'') (JNum ''1''))) ''/api/vote''],
                  console := [(''Vote failed:'', Error ''Service unavailable'')]\<rparr>
   \<and> handleVote failing_server (JStr ''a1'') (JStr ''answer'') (JNum ''1'') (demo_state\<lparr>user := JNull\<rparr>) =
       demo_state\<lparr>user := JNull,
                  console := [(''Vote failed:'', TypeError ''Cannot read properties of null (reading 'id')'')]\<rparr>
   \<and> factCheck demo_server (JStr ''tok1'') answer1 demo_state demo_state =
       demo_state\<lparr>requests := [request_with [(''Authorization'', ''Bearer tok1'')]
                      (POST (JObj [(''answer_id'', JStr ''a1''), (''question_title'', JStr ''Visa renewal''),
                                   (''answer_content'', JStr ''Try the consulate'')])) ''/api/fact-check-answer''],
                  console := [(''Fact-check failed:'', Error ''Not Found'')]\<rparr>
   \<and> alerts (handleCreateAnswer Themed demo_server demo_state) = []
   \<and> console (handleCreateAnswer Themed demo_server demo_state) = [(''Fact-check failed:'', Error ''Not Found'')]
   \<and> answers (handleCreateAnswer Themed demo_server demo_state) = JArr [answer1]
   \<and> answerContent (handleCreateAnswer Themed demo_server demo_state) = []
   \<and> map url (sent (handleCreateAnswer Themed demo_server) demo_state) =
       [''/api/questions/q1/answers'', ''/api/fact-check-answer'', ''/api/questions/q1'',
        ''/api/questions/q1/answers'']
   \<and> token (fetchUser failing_server (JStr ''tok1'') demo_state) = JNull
   \<and> localStorage (fetchUser failing_server (JStr ''tok1'') demo_state) ''token'' = None
   \<and> render (fetchUser failing_server (JStr ''tok1'') demo_state) = AuthScreen"
proof -
  have st: "token demo_state = JStr ''tok1''" "user demo_state = user1"
    "currentQuestion demo_state = question1" "answerContent demo_state = ''Try the consulate''"
    "requests demo_state = []" "console demo_state = []" "alerts demo_state = []"
    by (simp_all add: demo_state_def init_state_def)
  have tok: "truthy (token demo_state)" "truthy (currentQuestion demo_state)"
    by (simp_all add: st question1_def)
  have header: "authorization (JStr ''tok1'') = Inr [(''Authorization'', ''Bearer tok1'')]"
    by (simp add: authorization_def)
  note made = requested_request_with [OF header] reply_request_with [OF header]
  have uid: "get_prop (user demo_state) ''id'' = Inr (JStr ''u1'')"
    by (simp add: st user1_def)
  have refused: "fst (apiRequest failing_server (JStr ''tok1'') path opts s) = Inl (Error ''Service unavailable'')"
    if "opt_headers opts = None" for path opts s
    by (simp add: fst_apiRequest made that failing_server_def settle_def)
  have vote: "handleVote failing_server (JStr ''a1'') (JStr ''answer'') (JNum ''1'') demo_state =
       demo_state\<lparr>requests := [request_with [(''Authorization'', ''Bearer tok1'')]
                      (POST (vote_body (JStr ''u1'') (JStr ''a1'') (JStr ''answer'') (JNum ''1''))) ''/api/vote''],
                  console := [(''Vote failed:'', Error ''Service unavailable'')]\<rparr>"
    using background_failures [where s = demo_state and user_id = "JStr ''u1''" and sv = failing_server
        and targetId = "JStr ''a1''" and targetType = "JStr ''answer''" and vote = "JNum ''1''"
        and e = "Error ''Service unavailable''"] tok uid refused
    by (simp add: st made)
  let ?anon = "demo_state\<lparr>user := JNull\<rparr>"
  have "handleVote failing_server (JStr ''a1'') (JStr ''answer'') (JNum ''1'') ?anon
          = ?anon\<lparr>console := console ?anon @ [(''Vote failed:'', cannot_read ''null'' ''id'')]\<rparr>"
    using background_failures [where s = ?anon and sv = failing_server
        and targetId = "JStr ''a1''" and targetType = "JStr ''answer''" and vote = "JNum ''1''"
        and e = "cannot_read ''null'' ''id''"] tok
    by simp
  then have no_user: "handleVote failing_server (JStr ''a1'') (JStr ''answer'') (JNum ''1'') ?anon =
       demo_state\<lparr>user := JNull,
                  console := [(''Vote failed:'', TypeError ''Cannot read properties of null (reading 'id')'')]\<rparr>"
    by (simp add: st cannot_read_def)
  have aid: "get_prop answer1 ''id'' = Inr (JStr ''a1'')"
    "get_prop (currentQuestion demo_state) ''title'' = Inr (JStr ''Visa renewal'')"
    "get_prop (currentQuestion demo_state) ''id'' = Inr (JStr ''q1'')"
    by (simp_all add: answer1_def st question1_def)
  have not_found: "fst (apiRequest demo_server (JStr ''tok1'') ''/api/fact-check-answer'' (POST data) s)
                     = Inl (Error ''Not Found'')"
    for data s
    by (simp add: fst_apiRequest made demo_server_def request_with_def settle_def)
  have fact: "factCheck demo_server (JStr ''tok1'') answer1 demo_state s =
       s\<lparr>requests := requests s @ [request_with [(''Authorization'', ''Bearer tok1'')]
                      (POST (JObj [(''answer_id'', JStr ''a1''), (''question_title'', JStr ''Visa renewal''),
                                   (''answer_content'', JStr ''Try the consulate'')])) ''/api/fact-check-answer''],
                  console := console s @ [(''Fact-check failed:'', Error ''Not Found'')]\<rparr>" for s
    using background_failures [where answer = answer1 and answer_id = "JStr ''a1''" and ?s0.0 = demo_state
        and title = "JStr ''Visa renewal''" and sv = demo_server and tok = "JStr ''tok1''" and s = s
        and e = "Error ''Not Found''"] aid not_found
    by (simp add: st made)
  have posted: "fst (apiRequest demo_server (token demo_state) (''/api/questions/'' @ ''q1'' @ ''/answers'')
               (POST (JObj [(''content'', JStr (answerContent demo_state))])) (demo_state\<lparr>loading := True\<rparr>)) = Inr answer1"
    by (simp add: st fst_apiRequest made demo_server_def request_with_def settle_ok)
  have "handleCreateAnswer Themed demo_server demo_state =
          (fetchQuestion demo_server (token demo_state) (JStr ''q1'')
             ((factCheck demo_server (token demo_state) answer1 demo_state
                (demo_state\<lparr>loading := True,
                   requests := requests demo_state @ requested (token demo_state) (POST (JObj [(''content'', JStr (answerContent demo_state))]))
                                               (''/api/questions/'' @ ''q1'' @ ''/answers'')\<rparr>))
              \<lparr>answerContent := []\<rparr>))
          \<lparr>loading := False\<rparr>"
    using background_failures [where s = demo_state and sv = demo_server and questionId = "JStr ''q1''"
        and qid = "''q1''" and answer = answer1] tok aid posted
    by simp
  then have handler: "alerts (handleCreateAnswer Themed demo_server demo_state) = []"
    "console (handleCreateAnswer Themed demo_server demo_state) = [(''Fact-check failed:'', Error ''Not Found'')]"
    "answers (handleCreateAnswer Themed demo_server demo_state) = JArr [answer1]"
    "answerContent (handleCreateAnswer Themed demo_server demo_state) = []"
    "map url (sent (handleCreateAnswer Themed demo_server) demo_state) =
       [''/api/questions/q1/answers'', ''/api/fact-check-answer'', ''/api/questions/q1'',
        ''/api/questions/q1/answers'']"
    by (simp_all add: st fact fetchQuestion_def apiRequest_eq made Let_def demo_server_def
          request_with_def settle_ok sent_def)
  have "fetchUser failing_server (JStr ''tok1'') demo_state =
          demo_state\<lparr>requests := requests demo_state @ requested (JStr ''tok1'') GET ''/api/me'',
            console := console demo_state @ [(''Failed to fetch user:'', Error ''Service unavailable'')],
            localStorage := (localStorage demo_state)(''token'' := None), token := JNull\<rparr>
     \<and> localStorage (fetchUser failing_server (JStr ''tok1'') demo_state) ''token'' = None
     \<and> render (fetchUser failing_server (JStr ''tok1'') demo_state) = AuthScreen"
    using background_failures [where sv = failing_server and e = "Error ''Service unavailable''"
        and tok = "JStr ''tok1''" and s = demo_state]
      refused [of GET "''/api/me''" demo_state, OF opt_headers_GET(1)]
    by blast
  then have eq: "fetchUser failing_server (JStr ''tok1'') demo_state =
          demo_state\<lparr>requests := requests demo_state @ requested (JStr ''tok1'') GET ''/api/me'',
            console := console demo_state @ [(''Failed to fetch user:'', Error ''Service unavailable'')],
            localStorage := (localStorage demo_state)(''token'' := None), token := JNull\<rparr>"
    and cleared: "localStorage (fetchUser failing_server (JStr ''tok1'') demo_state) ''token'' = None"
      "render (fetchUser failing_server (JStr ''tok1'') demo_state) = AuthScreen"
    by blast+
  have "token (fetchUser failing_server (JStr ''tok1'') demo_state) = JNull"
    unfolding eq by simp
  with cleared have me: "token (fetchUser failing_server (JStr ''tok1'') demo_state) = JNull
     \<and> localStorage (fetchUser failing_server (JStr ''tok1'') demo_state) ''token'' = None
     \<and> render (fetchUser failing_server (JStr ''tok1'') demo_state) = AuthScreen"
    by blast
  from fact [of demo_state]
  have checked: "factCheck demo_server (JStr ''tok1'') answer1 demo_state demo_state =
       demo_state\<lparr>requests := [request_with [(''Authorization'', ''Bearer tok1'')]
                      (POST (JObj [(''answer_id'', JStr ''a1''), (''question_title'', JStr ''Visa renewal''),
                                   (''answer_content'', JStr ''Try the consulate'')])) ''/api/fact-check-answer''],
                  console := [(''Fact-check failed:'', Error ''Not Found'')]\<rparr>"
    by (simp add: st)
  from tok(1) uid vote no_user checked handler me show ?thesis
    by blast
qed

text \<open>
  C5: \<^verbatim>\<open>logout\<close> sets the token to null, removes the key \<^verbatim>\<open>token\<close> from local
  storage, sets the user and the current question to null and the answers to the empty
  list. It makes no request, so all of this is done when it returns. The component then
  renders the auth screen, and still does after the effect on the token has run.
\<close>

theorem logout_clears_session:
  "token (logout s) = JNull
   \<and> localStorage (logout s) ''token'' = None
   \<and> user (logout s) = JNull
   \<and> currentQuestion (logout s) = JNull
   \<and> answers (logout s) = JArr []
   \<and> requests (logout s) = requests s
   \<and> render (logout s) = AuthScreen
   \<and> render (rerender sv (token s) (logout s)) = AuthScreen"
proof -
  have eq: "logout s = s\<lparr>token := JNull, user := JNull,
                         localStorage := (localStorage s)(''token'' := None),
                         currentQuestion := JNull, answers := JArr []\<rparr>"
    by (simp add: logout_def Let_def)
  have "token (token_effect sv s') = JNull" if "token s' = JNull" for s'
    using that by (simp add: token_effect_def token_fetchQuestions)
  then have "token (rerender sv (token s) (logout s)) = JNull"
    by (simp add: eq rerender_def Let_def)
  then show ?thesis
    by (simp add: eq render_def)
qed

text \<open>
  C6, as the code has it. With an empty or whitespace-only query \<^verbatim>\<open>handleSearch\<close> is
  \<^verbatim>\<open>fetchQuestions\<close>: one GET of \<^verbatim>\<open>/api/questions\<close>, whose body becomes the questions
  list. With any other query in which every surrogate is paired it sends one GET of
  \<^verbatim>\<open>/api/search?q=\<close> followed by the encoded query, and the body of the answer
  replaces the questions list. With any other query that has an unpaired surrogate
  \<^verbatim>\<open>encodeURIComponent\<close> throws: the URIError is logged, no request is made and the
  questions list stays as it was.
\<close>

theorem search_modes:
  assumes "authorization (token s) = Inr bearer"
  shows "(trim_units (searchQuery s) = [] \<longrightarrow>
            handleSearch sv s = fetchQuestions sv (token s) s
            \<and> sent (handleSearch sv) s = [request_with bearer GET ''/api/questions'']
            \<and> (\<forall>list. sv (requests s @ [request_with bearer GET ''/api/questions'']) = Response True (Inr list)
                  \<longrightarrow> handleSearch sv s
                        = s\<lparr>requests := requests s @ [request_with bearer GET ''/api/questions''],
                            questions := list\<rparr>))
       \<and> (trim_units (searchQuery s) \<noteq> [] \<and> well_formed (searchQuery s) \<longrightarrow>
            (\<exists>q. encodeURIComponent (searchQuery s) = Inr q
               \<and> sent (handleSearch sv) s = [request_with bearer GET (''/api/search?q='' @ q)]
               \<and> (\<forall>results. sv (requests s @ [request_with bearer GET (''/api/search?q='' @ q)])
                                = Response True (Inr results)
                     \<longrightarrow> handleSearch sv s
                           = s\<lparr>requests := requests s @ [request_with bearer GET (''/api/search?q='' @ q)],
                               questions := results\<rparr>)))
       \<and> (trim_units (searchQuery s) \<noteq> [] \<and> \<not> well_formed (searchQuery s) \<longrightarrow>
            encodeURIComponent (searchQuery s) = Inl (URIError ''URI malformed'')
            \<and> handleSearch sv s = s\<lparr>console := console s @ [(''Search failed:'', URIError ''URI malformed'')]\<rparr>
            \<and> sent (handleSearch sv) s = []
            \<and> questions (handleSearch sv s) = questions s)"
proof -
  note made = requested_request_with [OF assms] reply_request_with [OF assms]
  have blank: "handleSearch sv s = fetchQuestions sv (token s) s
            \<and> sent (handleSearch sv) s = [request_with bearer GET ''/api/questions'']
            \<and> (\<forall>list. sv (requests s @ [request_with bearer GET ''/api/questions'']) = Response True (Inr list)
                  \<longrightarrow> handleSearch sv s
                        = s\<lparr>requests := requests s @ [request_with bearer GET ''/api/questions''],
                            questions := list\<rparr>)"
    if "trim_units (searchQuery s) = []"
    using that by (simp add: handleSearch_def fetchQuestions_eq made sent_def settle_ok split: sum.splits)
  have encoded: "\<exists>q. encodeURIComponent (searchQuery s) = Inr q
               \<and> sent (handleSearch sv) s = [request_with bearer GET (''/api/search?q='' @ q)]
               \<and> (\<forall>results. sv (requests s @ [request_with bearer GET (''/api/search?q='' @ q)])
                                = Response True (Inr results)
                     \<longrightarrow> handleSearch sv s
                           = s\<lparr>requests := requests s @ [request_with bearer GET (''/api/search?q='' @ q)],
                               questions := results\<rparr>)"
    if "trim_units (searchQuery s) \<noteq> []" "well_formed (searchQuery s)"
  proof -
    from that(2) obtain q where q: "encodeURIComponent (searchQuery s) = Inr q"
      using encodeURIComponent_well_formed by blast
    with that(1) have "sent (handleSearch sv) s = [request_with bearer GET (''/api/search?q='' @ q)]"
      and "\<forall>results. sv (requests s @ [request_with bearer GET (''/api/search?q='' @ q)])
                                = Response True (Inr results)
                     \<longrightarrow> handleSearch sv s
                           = s\<lparr>requests := requests s @ [request_with bearer GET (''/api/search?q='' @ q)],
                               questions := results\<rparr>"
      by (simp_all add: handleSearch_def apiRequest_eq made console_error_def sent_def settle_ok
            split: sum.splits)
    with q show ?thesis
      by blast
  qed
  have malformed: "encodeURIComponent (searchQuery s) = Inl (URIError ''URI malformed'')
            \<and> handleSearch sv s = s\<lparr>console := console s @ [(''Search failed:'', URIError ''URI malformed'')]\<rparr>
            \<and> sent (handleSearch sv) s = []
            \<and> questions (handleSearch sv s) = questions s"
    if "trim_units (searchQuery s) \<noteq> []" "\<not> well_formed (searchQuery s)"
  proof -
    from that(2) have "encodeURIComponent (searchQuery s) = Inl (URIError ''URI malformed'')"
      using encodeURIComponent_throws by (simp add: URI_malformed_def)
    with that(1) show ?thesis
      by (simp add: handleSearch_def console_error_def sent_def)
  qed
  from blank encoded malformed show ?thesis
    by blast
qed

theorem search_modes_witness:
  "authorization (token demo_state) = Inr [(''Authorization'', ''Bearer tok1'')]
   \<and> trim_units (searchQuery demo_state) \<noteq> [] \<and> well_formed (searchQuery demo_state)
   \<and> sent (handleSearch demo_server) demo_state
       = [request_with [(''Authorization'', ''Bearer tok1'')] GET ''/api/search?q=visa%20%26%20work'']
   \<and> questions (handleSearch demo_server demo_state) = JArr [question1]
   \<and> trim_units (searchQuery (handleSearch demo_server demo_state\<lparr>searchQuery := utf16 ''  ''\<rparr>)) = []
   \<and> sent (handleSearch demo_server) (handleSearch demo_server demo_state\<lparr>searchQuery := utf16 ''  ''\<rparr>)
       = [request_with [(''Authorization'', ''Bearer tok1'')] GET ''/api/questions'']
   \<and> questions (handleSearch demo_server (handleSearch demo_server demo_state\<lparr>searchQuery := utf16 ''  ''\<rparr>))
       = JArr [question1, question2]
   \<and> trim_units (searchQuery (demo_state\<lparr>searchQuery := [0x76, 0xD83D]\<rparr>)) \<noteq> []
   \<and> \<not> well_formed (searchQuery (demo_state\<lparr>searchQuery := [0x76, 0xD83D]\<rparr>))
   \<and> sent (handleSearch demo_server) (demo_state\<lparr>searchQuery := [0x76, 0xD83D]\<rparr>) = []
   \<and> console (handleSearch demo_server (demo_state\<lparr>searchQuery := [0x76, 0xD83D]\<rparr>))
       = [(''Search failed:'', URIError ''URI malformed'')]"
proof -
  let ?bearer = "[(''Authorization'', ''Bearer tok1'')]"
  let ?s1 = "handleSearch demo_server demo_state"
  let ?s2 = "?s1\<lparr>searchQuery := utf16 ''  ''\<rparr>"
  let ?s3 = "demo_state\<lparr>searchQuery := [0x76, 0xD83D]\<rparr>"
  have st: "searchQuery demo_state = utf16 ''visa & work''" "token demo_state = JStr ''tok1''"
    "console demo_state = []"
    by (simp_all add: demo_state_def init_state_def)
  have header: "authorization (token demo_state) = Inr ?bearer"
    by (simp add: st authorization_def)
  have enc: "encodeURIComponent (utf16 ''visa & work'') = Inr ''visa%20%26%20work''"
    by (simp add: encode_simps)
  have query: "trim_units (utf16 ''visa & work'') \<noteq> []" "trim_units (utf16 ''  '') = []"
    "trim_units [0x76, 0xD83D] \<noteq> []"
    by (simp_all add: trim_units_def utf16_def unit_whitespace_def)
  have formed: "well_formed (utf16 ''visa & work'')" "\<not> well_formed [0x76, 0xD83D]"
    by (simp_all add: utf16_def leading_surrogate_def trailing_surrogate_def)
  from search_modes [OF header, where sv = demo_server] query(1) formed(1)
  obtain q where "encodeURIComponent (searchQuery demo_state) = Inr q"
    and "sent (handleSearch demo_server) demo_state = [request_with ?bearer GET (''/api/search?q='' @ q)]"
    and "\<forall>results. demo_server (requests demo_state @ [request_with ?bearer GET (''/api/search?q='' @ q)])
                                = Response True (Inr results)
                     \<longrightarrow> ?s1 = demo_state\<lparr>requests := requests demo_state @ [request_with ?bearer GET (''/api/search?q='' @ q)],
                               questions := results\<rparr>"
    unfolding st by blast
  then have sent1: "sent (handleSearch demo_server) demo_state
                      = [request_with ?bearer GET ''/api/search?q=visa%20%26%20work'']"
    and "demo_server (requests demo_state @ [request_with ?bearer GET ''/api/search?q=visa%20%26%20work''])
                                = Response True (Inr (JArr [question1]))
                     \<longrightarrow> ?s1 = demo_state\<lparr>requests := requests demo_state @ [request_with ?bearer GET ''/api/search?q=visa%20%26%20work''],
                               questions := JArr [question1]\<rparr>"
    by (simp_all add: st enc)
  then have s1: "?s1 = demo_state\<lparr>requests := requests demo_state @ [request_with ?bearer GET ''/api/search?q=visa%20%26%20work''],
                               questions := JArr [question1]\<rparr>"
    by (simp add: demo_server_def request_with_def)
  then have found: "questions ?s1 = JArr [question1]"
    by simp
  have header2: "authorization (token ?s2) = Inr ?bearer"
    by (simp add: token_handleSearch header)
  have blank: "trim_units (searchQuery ?s2) = []"
    by (simp add: query)
  from search_modes [OF header2, where sv = demo_server] blank
  have sent2: "sent (handleSearch demo_server) ?s2 = [request_with ?bearer GET ''/api/questions'']"
    and "\<forall>list. demo_server (requests ?s2 @ [request_with ?bearer GET ''/api/questions'']) = Response True (Inr list)
                  \<longrightarrow> handleSearch demo_server ?s2
                        = ?s2\<lparr>requests := requests ?s2 @ [request_with ?bearer GET ''/api/questions''],
                            questions := list\<rparr>"
    by blast+
  then have "handleSearch demo_server ?s2
                        = ?s2\<lparr>requests := requests ?s2 @ [request_with ?bearer GET ''/api/questions''],
                            questions := JArr [question1, question2]\<rparr>"
    by (simp add: demo_server_def request_with_def)
  then have restored: "questions (handleSearch demo_server ?s2) = JArr [question1, question2]"
    by simp
  have header3: "authorization (token ?s3) = Inr ?bearer"
    by (simp add: header)
  have query3: "trim_units (searchQuery ?s3) \<noteq> []" "\<not> well_formed (searchQuery ?s3)"
    using query(3) formed(2) by simp_all
  from search_modes [OF header3, where sv = demo_server] query3
  have "handleSearch demo_server ?s3 = ?s3\<lparr>console := console ?s3 @ [(''Search failed:'', URIError ''URI malformed'')]\<rparr>"
    and sent3: "sent (handleSearch demo_server) ?s3 = []"
    by blast+
  then have logged: "console (handleSearch demo_server ?s3) = [(''Search failed:'', URIError ''URI malformed'')]"
    by (simp add: st)
  from header query(1) formed(1) sent1 found blank sent2 restored query3 sent3 logged show ?thesis
    unfolding st by blast
qed

text \<open>
  C6, in the words of the claim, at the query that is the one code unit D83D (the first
  half of an emoji): it is not blank, yet \<^verbatim>\<open>handleSearch\<close> fetches nothing and the
  questions list is not replaced. \<^verbatim>\<open>encodeURIComponent\<close> has thrown the URIError,
  which the \<^verbatim>\<open>catch\<close> logs.
\<close>

theorem search_unpaired_surrogate:
  "trim_units (searchQuery (demo_state\<lparr>searchQuery := [0xD83D]\<rparr>)) \<noteq> []
   \<and> encodeURIComponent (searchQuery (demo_state\<lparr>searchQuery := [0xD83D]\<rparr>)) = Inl (URIError ''URI malformed'')
   \<and> sent (handleSearch demo_server) (demo_state\<lparr>searchQuery := [0xD83D]\<rparr>) = []
   \<and> questions (handleSearch demo_server (demo_state\<lparr>searchQuery := [0xD83D]\<rparr>)) = JArr [question1]
   \<and> handleSearch demo_server (demo_state\<lparr>searchQuery := [0xD83D]\<rparr>)
       = demo_state\<lparr>searchQuery := [0xD83D], console := [(''Search failed:'', URIError ''URI malformed'')]\<rparr>"
proof -
  have query: "trim_units [0xD83D :: code_unit] \<noteq> []"
    by (simp add: trim_units_def unit_whitespace_def)
  have thrown: "encodeURIComponent [0xD83D] = Inl (URIError ''URI malformed'')"
    by (simp add: encode_simps)
  have st: "console demo_state = []" "questions demo_state = JArr [question1]"
    by (simp_all add: demo_state_def init_state_def)
  from query thrown show ?thesis
    by (simp add: handleSearch_def console_error_def sent_def st)
qed

text \<open>
  C7: when the request of \<^verbatim>\<open>handleAuth\<close> fails on the auth screen, the handler only
  records the request, shows the error's message in an alert and ends the loading
  state. The token stays as it was (falsy), local storage is untouched, the component
  still renders the auth screen, and no effect runs since the token did not change.
\<close>

theorem failed_login:
  assumes anonymous: "\<not> truthy (token s)"
    and failed: "fst (apiRequest sv (token s) (endpoint s) (POST (auth_data v s)) (s\<lparr>loading := True\<rparr>)) = Inl e"
  shows "handleAuth v sv s =
           s\<lparr>requests := requests s @ [request_with [] (POST (auth_data v s)) (endpoint s)],
             alerts := alerts s @ [message e], loading := False\<rparr>
         \<and> token (handleAuth v sv s) = token s
         \<and> localStorage (handleAuth v sv s) = localStorage s
         \<and> render (handleAuth v sv s) = AuthScreen
         \<and> rerender sv (token s) (handleAuth v sv s) = handleAuth v sv s"
proof -
  from anonymous have header: "authorization (token s) = Inr []"
    by (rule authorization_falsy)
  note made = requested_request_with [OF header] reply_request_with [OF header]
  from failed have "reply sv (token s) (endpoint s) (POST (auth_data v s)) (requests s) = Inl e"
    by (simp add: fst_apiRequest)
  then have eq: "handleAuth v sv s =
           s\<lparr>requests := requests s @ [request_with [] (POST (auth_data v s)) (endpoint s)],
             alerts := alerts s @ [message e], loading := False\<rparr>"
    by (simp add: handleAuth_def apiRequest_eq made alert_def Let_def)
  with anonymous show ?thesis
    by (simp add: render_def rerender_def)
qed

theorem failed_login_witness:
  "\<not> truthy (token (init_state Generic Map.empty))
   \<and> fst (apiRequest failing_server JNull ''/api/login''
            (POST (JObj [(''username'', JStr []), (''password'', JStr [])]))
            ((init_state Generic Map.empty)\<lparr>loading := True\<rparr>)) = Inl (Error ''Service unavailable'')
   \<and> requests (handleAuth Generic failing_server (init_state Generic Map.empty))
       = [\<lparr>url = ''/api/login'', req_method = Some ''POST'',
           req_headers = [(''Content-Type'', ''application/json'')],
           req_body = Some (JObj [(''username'', JStr []), (''password'', JStr [])])\<rparr>]
   \<and> alerts (handleAuth Generic failing_server (init_state Generic Map.empty)) = [''Service unavailable'']
   \<and> token (handleAuth Generic failing_server (init_state Generic Map.empty)) = JNull
   \<and> localStorage (handleAuth Generic failing_server (init_state Generic Map.empty)) = Map.empty
   \<and> render (handleAuth Generic failing_server (init_state Generic Map.empty)) = AuthScreen"
proof -
  let ?s = "init_state Generic Map.empty"
  have anonymous: "\<not> truthy (token ?s)"
    by (simp add: init_state_def)
  have data: "token ?s = JNull" "endpoint ?s = ''/api/login''"
    "auth_data Generic ?s = JObj [(''username'', JStr []), (''password'', JStr [])]"
    by (simp_all add: init_state_def endpoint_def auth_data_def login_body_def empty_login_def)
  have header: "authorization (token ?s) = Inr []"
    by (simp add: data authorization_def)
  have failed: "fst (apiRequest failing_server (token ?s) (endpoint ?s) (POST (auth_data Generic ?s))
                  (?s\<lparr>loading := True\<rparr>)) = Inl (Error ''Service unavailable'')"
    by (simp add: fst_apiRequest reply_request_with [OF header] failing_server_def settle_def)
  from failed_login [OF anonymous failed]
  have eq: "handleAuth Generic failing_server ?s =
              ?s\<lparr>requests := requests ?s @ [request_with [] (POST (auth_data Generic ?s)) (endpoint ?s)],
                alerts := alerts ?s @ [message (Error ''Service unavailable'')], loading := False\<rparr>"
    and shown: "render (handleAuth Generic failing_server ?s) = AuthScreen"
    by blast+
  have "requests (handleAuth Generic failing_server ?s)
          = requests ?s @ [request_with [] (POST (auth_data Generic ?s)) (endpoint ?s)]"
    unfolding eq by simp
  then have made: "requests (handleAuth Generic failing_server ?s)
       = [\<lparr>url = ''/api/login'', req_method = Some ''POST'',
           req_headers = [(''Content-Type'', ''application/json'')],
           req_body = Some (JObj [(''username'', JStr []), (''password'', JStr [])])\<rparr>]"
    unfolding data by (simp add: init_state_def request_with_def)
  have "alerts (handleAuth Generic failing_server ?s) = [''Service unavailable'']"
    "token (handleAuth Generic failing_server ?s) = JNull"
    "localStorage (handleAuth Generic failing_server ?s) = Map.empty"
    unfolding eq by (simp_all add: init_state_def)
  with anonymous failed shown made show ?thesis
    by (simp only: data simp_thms)
qed

text \<open>
  C8: with a non-blank input and a token, \<^verbatim>\<open>handleChatMessage\<close> appends the user's
  message, clears the input and calls the gateway once for the chat endpoint. The
  transcript then gets one assistant turn: the \<^verbatim>\<open>response\<close> field of the body when
  the call succeeds and the field can be read, the fixed fallback text otherwise. The
  transcript grows by exactly two messages, the user's first.
\<close>

theorem chat_turn:
  assumes "truthy (JStr (trim (chatInput s)))" and "truthy (token s)"
  shows "chatMessages (handleChatMessage v sv s) =
           chatMessages s
           @ [\<lparr>msg_text = JStr (chatInput s), msg_sender = ''user''\<rparr>,
              \<lparr>msg_text =
                 (case reply sv (token s) (chat_endpoint v) (POST (JObj [(''message'', JStr (chatInput s))]))
                         (requests s) of
                    Inl e \<Rightarrow> JStr ''Sorry, I encountered an error. Please try again.''
                  | Inr response \<Rightarrow>
                      (case get_prop response ''response'' of
                         Inl e \<Rightarrow> JStr ''Sorry, I encountered an error. Please try again.''
                       | Inr answer_text \<Rightarrow> answer_text)),
               msg_sender = ''ai''\<rparr>]
         \<and> length (chatMessages (handleChatMessage v sv s)) = length (chatMessages s) + 2
         \<and> chatInput (handleChatMessage v sv s) = []
         \<and> sent (handleChatMessage v sv) s =
             requested (token s) (POST (JObj [(''message'', JStr (chatInput s))])) (chat_endpoint v)
         \<and> (\<forall>bearer. authorization (token s) = Inr bearer \<longrightarrow>
               sent (handleChatMessage v sv) s =
                 [request_with bearer (POST (JObj [(''message'', JStr (chatInput s))])) (chat_endpoint v)]
               \<and> reply sv (token s) (chat_endpoint v) (POST (JObj [(''message'', JStr (chatInput s))])) (requests s)
                   = settle (sv (requests s
                       @ [request_with bearer (POST (JObj [(''message'', JStr (chatInput s))])) (chat_endpoint v)])))"
proof -
  let ?post = "POST (JObj [(''message'', JStr (chatInput s))])"
  have run: "chatMessages (handleChatMessage v sv s) =
           chatMessages s
           @ [\<lparr>msg_text = JStr (chatInput s), msg_sender = ''user''\<rparr>,
              \<lparr>msg_text =
                 (case reply sv (token s) (chat_endpoint v) ?post (requests s) of
                    Inl e \<Rightarrow> JStr ''Sorry, I encountered an error. Please try again.''
                  | Inr response \<Rightarrow>
                      (case get_prop response ''response'' of
                         Inl e \<Rightarrow> JStr ''Sorry, I encountered an error. Please try again.''
                       | Inr answer_text \<Rightarrow> answer_text)),
               msg_sender = ''ai''\<rparr>]"
    and cleared: "chatInput (handleChatMessage v sv s) = []"
    and made: "sent (handleChatMessage v sv) s = requested (token s) ?post (chat_endpoint v)"
    using assms
    by (simp_all add: handleChatMessage_def apiRequest_eq console_error_def chat_fallback_def sent_def
          Let_def split: sum.splits)
  from run have grown: "length (chatMessages (handleChatMessage v sv s)) = length (chatMessages s) + 2"
    by simp
  have "sent (handleChatMessage v sv) s = [request_with bearer ?post (chat_endpoint v)]
        \<and> reply sv (token s) (chat_endpoint v) ?post (requests s)
            = settle (sv (requests s @ [request_with bearer ?post (chat_endpoint v)]))"
    if "authorization (token s) = Inr bearer" for bearer
    by (simp add: made requested_request_with [OF that] reply_request_with [OF that])
  with run grown cleared made show ?thesis
    by blast
qed

theorem chat_turn_witness:
  "truthy (JStr (trim (chatInput demo_state))) \<and> truthy (token demo_state)
   \<and> chatMessages (handleChatMessage Generic demo_server demo_state) =
       chatMessages demo_state
       @ [\<lparr>msg_text = JStr ''How long does it take?'', msg_sender = ''user''\<rparr>,
          \<lparr>msg_text = JStr ''Hello'', msg_sender = ''ai''\<rparr>]
   \<and> chatMessages (handleChatMessage Themed failing_server demo_state) =
       chatMessages demo_state
       @ [\<lparr>msg_text = JStr ''How long does it take?'', msg_sender = ''user''\<rparr>,
          \<lparr>msg_text = JStr ''Sorry, I encountered an error. Please try again.'', msg_sender = ''ai''\<rparr>]
   \<and> sent (handleChatMessage Generic demo_server) demo_state =
       [\<lparr>url = ''/api/chat'', req_method = Some ''POST'',
         req_headers = [(''Content-Type'', ''application/json''), (''Authorization'', ''Bearer tok1'')],
         req_body = Some (JObj [(''message'', JStr ''How long does it take?'')])\<rparr>]
   \<and> sent (handleChatMessage Themed failing_server) demo_state =
       [\<lparr>url = ''/api/immigration-chat'', req_method = Some ''POST'',
         req_headers = [(''Content-Type'', ''application/json''), (''Authorization'', ''Bearer tok1'')],
         req_body = Some (JObj [(''message'', JStr ''How long does it take?'')])\<rparr>]"
proof -
  have input: "chatInput demo_state = ''How long does it take?''" "token demo_state = JStr ''tok1''"
    by (simp_all add: demo_state_def init_state_def)
  have a: "truthy (JStr (trim (chatInput demo_state)))"
    unfolding input by code_simp
  have b: "truthy (token demo_state)"
    by (simp add: input)
  have header: "authorization (JStr ''tok1'') = Inr [(''Authorization'', ''Bearer tok1'')]"
    by (simp add: authorization_def)
  note made = requested_request_with [OF header] reply_request_with [OF header]
  have generic: "chatMessages (handleChatMessage Generic demo_server demo_state) =
       chatMessages demo_state
       @ [\<lparr>msg_text = JStr ''How long does it take?'', msg_sender = ''user''\<rparr>,
          \<lparr>msg_text = JStr ''Hello'', msg_sender = ''ai''\<rparr>]"
    "sent (handleChatMessage Generic demo_server) demo_state =
       [\<lparr>url = ''/api/chat'', req_method = Some ''POST'',
         req_headers = [(''Content-Type'', ''application/json''), (''Authorization'', ''Bearer tok1'')],
         req_body = Some (JObj [(''message'', JStr ''How long does it take?'')])\<rparr>]"
    using chat_turn [OF a b, of Generic demo_server]
    by (simp_all add: made input demo_server_def settle_def request_with_def chat_endpoint_def)
  have themed: "chatMessages (handleChatMessage Themed failing_server demo_state) =
       chatMessages demo_state
       @ [\<lparr>msg_text = JStr ''How long does it take?'', msg_sender = ''user''\<rparr>,
          \<lparr>msg_text = JStr ''Sorry, I encountered an error. Please try again.'', msg_sender = ''ai''\<rparr>]"
    "sent (handleChatMessage Themed failing_server) demo_state =
       [\<lparr>url = ''/api/immigration-chat'', req_method = Some ''POST'',
         req_headers = [(''Content-Type'', ''application/json''), (''Authorization'', ''Bearer tok1'')],
         req_body = Some (JObj [(''message'', JStr ''How long does it take?'')])\<rparr>]"
    using chat_turn [OF a b, of Themed failing_server]
    by (simp_all add: made input failing_server_def settle_def request_with_def chat_endpoint_def)
  from a b generic themed show ?thesis
    by blast
qed

text \<open>
  C9: without a token, \<^verbatim>\<open>handleCreateQuestion\<close>, \<^verbatim>\<open>handleCreateAnswer\<close>,
  \<^verbatim>\<open>handleVote\<close> and \<^verbatim>\<open>handleChatMessage\<close> return the state they were given: no field
  changes and no request is added. \<^verbatim>\<open>handleCreateAnswer\<close> does the same when no
  question is open.
\<close>

theorem handlers_without_token:
  "(\<not> truthy (token s) \<longrightarrow>
      handleCreateQuestion v sv s = s
      \<and> handleCreateAnswer v sv s = s
      \<and> handleVote sv targetId targetType vote s = s
      \<and> handleChatMessage v sv s = s
      \<and> sent (handleCreateQuestion v sv) s = []
      \<and> sent (handleCreateAnswer v sv) s = []
      \<and> sent (handleVote sv targetId targetType vote) s = []
      \<and> sent (handleChatMessage v sv) s = [])
   \<and> (\<not> truthy (currentQuestion s) \<longrightarrow>
        handleCreateAnswer v sv s = s \<and> sent (handleCreateAnswer v sv) s = [])"
  by (simp add: handleCreateQuestion_def handleCreateAnswer_def handleVote_def
        handleChatMessage_def sent_def)

theorem handlers_without_token_witness:
  "\<not> truthy (token (logout demo_state))
   \<and> \<not> truthy (currentQuestion (logout demo_state))
   \<and> handleCreateQuestion Generic demo_server (logout demo_state) = logout demo_state
   \<and> handleCreateAnswer Generic demo_server (logout demo_state) = logout demo_state
   \<and> handleVote demo_server (JStr ''q1'') (JStr ''question'') (JNum ''1'') (logout demo_state) = logout demo_state
   \<and> handleChatMessage Generic demo_server (logout demo_state) = logout demo_state
   \<and> truthy (token (demo_state\<lparr>currentQuestion := JNull\<rparr>))
   \<and> handleCreateAnswer Themed demo_server (demo_state\<lparr>currentQuestion := JNull\<rparr>)
       = demo_state\<lparr>currentQuestion := JNull\<rparr>"
  using handlers_without_token [of "logout demo_state" Generic demo_server "JStr ''q1''" "JStr ''question''" "JNum ''1''"]
    handlers_without_token [of "demo_state\<lparr>currentQuestion := JNull\<rparr>" Themed demo_server]
  by (simp add: logout_def Let_def demo_state_def init_state_def)

text \<open>
  C10: \<^verbatim>\<open>logout\<close> writes the token, the user, the local-storage key, the current
  question and the answers, and nothing else: the questions list, the chat transcript,
  the search query and the form buffers are as before. Neither the effect on the token
  nor \<^verbatim>\<open>handleAuth\<close> writes the transcript, so after logging out, typing credentials
  and logging in again the transcript of the earlier session is still in the state, and
  the chat dialog shows it as soon as it is opened.
\<close>

theorem logout_keeps_transcript:
  "logout s = s\<lparr>token := JNull, user := JNull, localStorage := (localStorage s)(''token'' := None),
               currentQuestion := JNull, answers := JArr []\<rparr>
   \<and> questions (logout s) = questions s
   \<and> chatMessages (logout s) = chatMessages s
   \<and> searchQuery (logout s) = searchQuery s
   \<and> chatInput (logout s) = chatInput s
   \<and> loginData (logout s) = loginData s
   \<and> registerData (logout s) = registerData s
   \<and> questionData (logout s) = questionData s
   \<and> answerContent (logout s) = answerContent s
   \<and> (let out = rerender sv (token s) (logout s);
            typed = out\<lparr>authMode := mode, loginData := credentials\<rparr>;
            again = rerender sv (token typed) (handleAuth v sv typed)
        in chatMessages again = chatMessages s
           \<and> (truthy (token again) \<longrightarrow> chat_dialog (openChat again) = Some (chatMessages s)))"
proof -
  have eq: "logout s = s\<lparr>token := JNull, user := JNull, localStorage := (localStorage s)(''token'' := None),
               currentQuestion := JNull, answers := JArr []\<rparr>"
    by (simp add: logout_def Let_def)
  have questions: "chatMessages (fetchQuestions sv tok s) = chatMessages s" for tok s
    by (simp add: fetchQuestions_eq split: sum.splits)
  have user: "chatMessages (fetchUser sv tok s) = chatMessages s" for tok s
    by (simp add: fetchUser_eq split: sum.splits)
  have effect: "chatMessages (token_effect sv s) = chatMessages s" for s
    by (simp add: token_effect_def questions user)
  have renders: "chatMessages (rerender sv old s) = chatMessages s" for old s
    by (simp add: rerender_def Let_def effect)
  have auth: "chatMessages (handleAuth v sv s) = chatMessages s" for s
    by (simp add: handleAuth_def apiRequest_eq alert_def Let_def split: sum.splits)
  have "chatMessages (rerender sv old (handleAuth v sv ((rerender sv (token s) (logout s))\<lparr>authMode := mode, loginData := credentials\<rparr>)))
          = chatMessages s" for old
    by (simp add: renders auth) (simp add: eq)
  then have "let out = rerender sv (token s) (logout s);
            typed = out\<lparr>authMode := mode, loginData := credentials\<rparr>;
            again = rerender sv (token typed) (handleAuth v sv typed)
        in chatMessages again = chatMessages s
           \<and> (truthy (token again) \<longrightarrow> chat_dialog (openChat again) = Some (chatMessages s))"
    by (simp add: Let_def chat_dialog_def openChat_def)
  then show ?thesis
    by (simp add: eq)
qed

theorem logout_keeps_transcript_witness:
  "chatMessages demo_state = [\<lparr>msg_text = JStr ''Hi'', msg_sender = ''user''\<rparr>,
                              \<lparr>msg_text = JStr ''Hello'', msg_sender = ''ai''\<rparr>]
   \<and> render (rerender demo_server (token demo_state) (logout demo_state)) = AuthScreen
   \<and> (let out = rerender demo_server (token demo_state) (logout demo_state);
           typed = out\<lparr>authMode := ''login'', loginData := \<lparr>l_username = ''ana'', l_password = ''secret''\<rparr>\<rparr>;
           again = rerender demo_server (token typed) (handleAuth Generic demo_server typed)
       in truthy (token again)
          \<and> chat_dialog (openChat again) = Some [\<lparr>msg_text = JStr ''Hi'', msg_sender = ''user''\<rparr>,
                                                \<lparr>msg_text = JStr ''Hello'', msg_sender = ''ai''\<rparr>])"
proof -
  define out where "out = rerender demo_server (token demo_state) (logout demo_state)"
  define typed where "typed = out\<lparr>authMode := ''login'', loginData := \<lparr>l_username = ''ana'', l_password = ''secret''\<rparr>\<rparr>"
  define again where "again = rerender demo_server (token typed) (handleAuth Generic demo_server typed)"
  have chat: "chatMessages demo_state = [\<lparr>msg_text = JStr ''Hi'', msg_sender = ''user''\<rparr>,
                              \<lparr>msg_text = JStr ''Hello'', msg_sender = ''ai''\<rparr>]"
    by (simp add: demo_state_def init_state_def)
  have anonymous: "authorization JNull = Inr []"
    and header: "authorization (JStr ''tok1'') = Inr [(''Authorization'', ''Bearer tok1'')]"
    by (simp_all add: authorization_def)
  note made = requested_request_with [OF anonymous] reply_request_with [OF anonymous]
    requested_request_with [OF header] reply_request_with [OF header]
  have "token demo_state = JStr ''tok1''"
    by (simp add: demo_state_def init_state_def)
  then have out: "token out = JNull" "render out = AuthScreen"
    by (simp_all add: out_def logout_def Let_def rerender_def token_effect_def token_fetchQuestions
          render_def)
  have typed: "token typed = JNull" "authMode typed = ''login''"
    by (simp_all add: typed_def out)
  have "reply demo_server (token typed) (endpoint typed) (POST (auth_data Generic typed)) (requests typed)
          = Inr (JObj [(''access_token'', JStr ''tok1'')])"
    by (simp add: made demo_server_def request_with_def endpoint_def typed settle_ok)
  then have auth: "token (handleAuth Generic demo_server typed) = JStr ''tok1''"
    by (simp add: handleAuth_def apiRequest_eq Let_def)
  have me: "reply demo_server (JStr ''tok1'') ''/api/me'' GET h = Inr user1" for h
    by (simp add: made demo_server_def request_with_def settle_ok)
  have "token (token_effect demo_server (handleAuth Generic demo_server typed)) = JStr ''tok1''"
    by (simp add: token_effect_def auth token_fetchQuestions token_fetchUser me)
  then have "token again = JStr ''tok1''"
    by (simp add: again_def rerender_def auth typed Let_def)
  then have logged_in: "truthy (token again)"
    by simp
  have "truthy (token again) \<longrightarrow> chat_dialog (openChat again) = Some (chatMessages demo_state)"
    using logout_keeps_transcript [where s = demo_state and sv = demo_server and mode = "''login''"
         and credentials = "\<lparr>l_username = ''ana'', l_password = ''secret''\<rparr>" and v = Generic]
    unfolding Let_def out_def typed_def again_def by blast
  with logged_in have "truthy (token again)
      \<and> chat_dialog (openChat again) = Some [\<lparr>msg_text = JStr ''Hi'', msg_sender = ''user''\<rparr>,
                                              \<lparr>msg_text = JStr ''Hello'', msg_sender = ''ai''\<rparr>]"
    by (simp add: chat)
  with chat out(2) show ?thesis
    unfolding Let_def out_def typed_def again_def by blast
qed

end
